theory Spec2Isabelle
  imports Main "HOL-Library.Sublist"
begin

section \<open>JavaScript string and array primitives used by the file layer\<close>

text \<open>
  A string is the list of its code units. Only the separator \<open>/\<close> and the mode
  letters are ever inspected, so the width of a unit plays no part.
\<close>

definition endsWith :: "string \<Rightarrow> string \<Rightarrow> bool" where
  "endsWith s t = (length t \<le> length s \<and> drop (length s - length t) s = t)"

definition startsWith :: "string \<Rightarrow> string \<Rightarrow> bool" where
  "startsWith s t = (take (length t) s = t)"

text \<open>\<^verbatim>\<open>s.slice(0, -1)\<close> and \<^verbatim>\<open>s.slice(1)\<close>; both return the empty string on the
  empty string.\<close>

definition slice_0_m1 :: "string \<Rightarrow> string" where
  "slice_0_m1 s = take (length s - 1) s"

definition slice_1 :: "string \<Rightarrow> string" where
  "slice_1 s = drop 1 s"

text \<open>\<^verbatim>\<open>s.charAt(i)\<close> is the empty string out of range.\<close>

definition charAt :: "string \<Rightarrow> nat \<Rightarrow> string" where
  "charAt s i = (if i < length s then [s ! i] else [])"

definition substr :: "string \<Rightarrow> nat \<Rightarrow> nat \<Rightarrow> string" where
  "substr s start len = take len (drop start s)"

text \<open>\<^verbatim>\<open>s.split("/")\<close>: always at least one piece, \<^verbatim>\<open>"".split("/")\<close> is \<^verbatim>\<open>[""]\<close>.\<close>

fun split :: "string \<Rightarrow> char \<Rightarrow> string list" where
  "split [] c = [[]]"
| "split (x # xs) c =
     (if x = c then [] # split xs c
      else (case split xs c of
              [] \<Rightarrow> [[x]]
            | w # ws \<Rightarrow> (x # w) # ws))"

text \<open>\<^verbatim>\<open>a.pop()\<close> returns the removed last element (\<^verbatim>\<open>undefined\<close> on an empty
  array) and leaves the array without it.\<close>

definition pop :: "'a list \<Rightarrow> 'a option \<times> 'a list" where
  "pop xs = (case rev xs of [] \<Rightarrow> (None, []) | y # ys \<Rightarrow> (Some y, rev ys))"

fun join :: "string list \<Rightarrow> string \<Rightarrow> string" where
  "join [] sep = []"
| "join [x] sep = x"
| "join (x # y # ys) sep = x @ sep @ join (y # ys) sep"

text \<open>Decimal rendering of a non-negative integer, as a template literal renders an
  HTTP status.\<close>

definition digit :: "nat \<Rightarrow> char" where
  "digit d = ''0123456789'' ! d"

function toString :: "nat \<Rightarrow> string" where
  "toString n = (if n < 10 then [digit n] else toString (n div 10) @ [digit (n mod 10)])"
  by pat_completeness auto
termination
  by (relation "measure (\<lambda>n. n)") auto

declare toString.simps [simp del]

section \<open>Data model\<close>

record Client =
  host :: string
  token :: string
  verified :: bool

definition CLIENT_UNVERIFIED_ERROR :: string where
  "CLIENT_UNVERIFIED_ERROR = ''Client is unverified, login to proceed''"

text \<open>\<open>server_identifier\<close> is the source's \<^verbatim>\<open>identifier\<close>.\<close>

record Server =
  server_identifier :: string
  client :: Client

text \<open>\<open>write_access\<close> is the source's \<^verbatim>\<open>write\<close>.\<close>

record FileAccess =
  read :: bool
  write_access :: bool
  execute :: bool

text \<open>The \<^verbatim>\<open>attributes\<close> object of a \<^verbatim>\<open>FileData\<close> listing entry. \<^verbatim>\<open>modified_at\<close> may
  be \<^verbatim>\<open>null\<close>. The fields \<open>attr_name\<close>, \<open>attr_mode\<close>, \<open>attr_size\<close> are the source's
  \<^verbatim>\<open>name\<close>, \<^verbatim>\<open>mode\<close>, \<^verbatim>\<open>size\<close>.\<close>

record FileAttributes =
  attr_name :: string
  attr_mode :: string
  attr_size :: int
  is_file :: bool
  is_symlink :: bool
  is_editable :: bool
  mimetype :: string
  created_at :: string
  modified_at :: "string option"

record FileData =
  attributes :: FileAttributes

text \<open>
  The class \<^verbatim>\<open>File\<close>. \<open>size_bytes\<close> is the source's \<^verbatim>\<open>size\<close>. The dates are kept
  as the strings they are parsed from; \<^verbatim>\<open>fetchedAt\<close>, the wall-clock time of
  construction, is left out.
\<close>

record File =
  name :: string
  ownerFileAccess :: FileAccess
  userFileAccess :: FileAccess
  isDirectory :: bool
  size_bytes :: int
  symlink :: bool
  editable :: bool
  mimeType :: string
  createdAt :: string
  modifiedAt :: "string option"
  location :: string
  root :: string
  server :: Server
  mode :: string

text \<open>The constructor \<^verbatim>\<open>new File(data, server, parent)\<close>; the default of \<^verbatim>\<open>parent\<close>
  is the empty string, which callers of the two-argument form pass here.\<close>

definition new_File :: "FileData \<Rightarrow> Server \<Rightarrow> string \<Rightarrow> File" where
  "new_File data' server' parent0 =
     (let parent = (if endsWith parent0 ''/'' then slice_0_m1 parent0 else parent0);
          attrs = attributes data';
          flag = charAt (attr_mode attrs) 0;
          ownerPerms = substr (attr_mode attrs) 1 3;
          userPerms = substr (attr_mode attrs) 4 3
      in \<lparr> name = attr_name attrs,
           ownerFileAccess =
             \<lparr> read = (charAt ownerPerms 0 = ''r''),
               write_access = (charAt ownerPerms 1 = ''w''),
               execute = (charAt ownerPerms 2 = ''x'') \<rparr>,
           userFileAccess =
             \<lparr> read = (charAt userPerms 0 = ''r''),
               write_access = (charAt userPerms 1 = ''w''),
               execute = (charAt userPerms 2 = ''x'') \<rparr>,
           isDirectory = (flag = ''d''),
           size_bytes = attr_size attrs,
           symlink = is_symlink attrs,
           editable = is_editable attrs,
           mimeType = mimetype attrs,
           createdAt = created_at attrs,
           modifiedAt = modified_at attrs,
           location = parent @ ''/'' @ attr_name attrs,
           root = (if length parent = 0 then ''/'' else parent),
           server = server',
           mode = attr_mode attrs \<rparr>)"

section \<open>The request layer\<close>

text \<open>Request bodies are object literals; they are kept as the JSON they serialise to.\<close>

datatype json = JString string | JArray "json list" | JObject "(string \<times> json) list"

text \<open>The part of \<^verbatim>\<open>AxiosRequestConfig\<close> the library fills in. \<open>http_method\<close> is the
  source's \<^verbatim>\<open>method\<close>; \<open>body\<close> is its \<^verbatim>\<open>data\<close>, absent on the \<^verbatim>\<open>get\<close> requests.\<close>

record AxiosRequestConfig =
  http_method :: string
  maxRedirects :: nat
  url :: string
  headers :: "(string \<times> string) list"
  body :: "json option"

text \<open>
  One element of the panel's \<^verbatim>\<open>errors\<close> array. The source probes the fields
  \<^verbatim>\<open>e.code\<close>, \<^verbatim>\<open>e.status\<close>, \<^verbatim>\<open>e.source\<close>, \<^verbatim>\<open>e.detail\<close> for truthiness; \<open>code\<close>,
  \<open>status\<close> and \<open>detail\<close> are strings when present, \<open>source\<close> is an object.
\<close>

record error_element =
  e_code :: "string option"
  e_status :: "string option"
  e_source :: "(string \<times> string) list option"
  e_detail :: "string option"

text \<open>The response payloads the file endpoints produce: nothing (a 204), raw text, one
  file object, a listing \<^verbatim>\<open>{object: "list", data: [...]}\<close>, or an error body
  \<^verbatim>\<open>{errors: [...]}\<close>.\<close>

datatype payload =
    Empty
  | Text string
  | FileObject FileData
  | FileList "FileData list"
  | ErrorBody "error_element list"

record AxiosResponse =
  status :: nat
  statusText :: string
  data :: payload

text \<open>The error Axios rejects with: it carries the response when one was received,
  and a \<^verbatim>\<open>code\<close> such as \<^verbatim>\<open>ECONNREFUSED\<close> when none was.\<close>

record AxiosError =
  response :: "AxiosResponse option"
  code :: "string option"

datatype axios_outcome = Resolved AxiosResponse | Rejected AxiosError

text \<open>What a call can throw: the library's own error class, a plain \<^verbatim>\<open>Error\<close>, the
  Axios error thrown again as it came, or the runtime's \<^verbatim>\<open>TypeError\<close> on reading a
  property of \<^verbatim>\<open>undefined\<close> or iterating a non-iterable.\<close>

datatype failure =
    PterodactylAPIError string
  | Error string
  | Rethrown AxiosError
  | TypeError

text \<open>
  The upstream is a parameter: \<open>net sent options\<close> is how \<^verbatim>\<open>Axios.request(options)\<close> settles
  after the requests \<open>sent\<close> have been issued. Every operation threads the list of
  requests issued so far and returns it extended.
\<close>

type_synonym network = "AxiosRequestConfig list \<Rightarrow> AxiosRequestConfig \<Rightarrow> axios_outcome"

type_synonym 'a io = "AxiosRequestConfig list \<Rightarrow> (failure + 'a) \<times> AxiosRequestConfig list"

definition return :: "'a \<Rightarrow> 'a io" where
  "return x sent = (Inr x, sent)"

definition throw :: "failure \<Rightarrow> 'a io" where
  "throw e sent = (Inl e, sent)"

text \<open>\<^verbatim>\<open>const x = await m; k(x)\<close>: a rejection of \<open>m\<close> leaves the function.\<close>

definition await :: "'a io \<Rightarrow> ('a \<Rightarrow> 'b io) \<Rightarrow> 'b io" where
  "await m k sent = (case m sent of (Inl e, sent') \<Rightarrow> (Inl e, sent') | (Inr x, sent') \<Rightarrow> k x sent')"

text \<open>JavaScript truthiness of an optional string, and its rendering in a template
  literal.\<close>

definition truthy :: "string option \<Rightarrow> bool" where
  "truthy v = (case v of None \<Rightarrow> False | Some s \<Rightarrow> s \<noteq> [])"

definition render :: "string option \<Rightarrow> string" where
  "render v = (case v of None \<Rightarrow> ''undefined'' | Some s \<Rightarrow> s)"

text \<open>\<^verbatim>\<open>response.data && response.data.errors\<close>: only an error body has the property,
  and an array, even an empty one, is truthy.\<close>

definition data_errors :: "payload \<Rightarrow> error_element list option" where
  "data_errors d = (case d of ErrorBody es \<Rightarrow> Some es | _ \<Rightarrow> None)"

text \<open>\<^verbatim>\<open>makeRequest\<close>, applied to the way \<^verbatim>\<open>Axios.request(options)\<close> settled. The result is
  the pair \<^verbatim>\<open>[response, error]\<close>.\<close>

definition makeRequest ::
  "axios_outcome \<Rightarrow> failure + (AxiosResponse option \<times> error_element list option)" where
  "makeRequest outcome =
     (case outcome of
        Resolved r \<Rightarrow> Inr (Some r, None)
      | Rejected error \<Rightarrow>
          (case response error of
             Some r \<Rightarrow>
               if status r = 403 then Inl (Error ''Invalid API key provided, request failed'')
               else (case data_errors (data r) of
                       Some errors \<Rightarrow> Inr (None, Some errors)
                     | None \<Rightarrow> Inl (Rethrown error))
           | None \<Rightarrow>
               if code error = Some ''ECONNREFUSED''
               then Inl (Error ''Unable to connect to host, connection refused'')
               else if code error = Some ''ENOTFOUND''
               then Inl (Error ''Unable to connect to host, host not found'')
               else Inl (Rethrown error)))"

text \<open>The loop of \<^verbatim>\<open>APIRequest\<close> over the error list: the first element with one of the
  two shapes throws; when no element has one, the loop ends and nothing is thrown.\<close>

fun throw_first :: "error_element list \<Rightarrow> failure option" where
  "throw_first [] = None"
| "throw_first (e # es) =
     (if truthy (e_code e) \<and> truthy (e_status e) \<and> truthy (e_detail e)
      then Some (PterodactylAPIError
                   (render (e_code e) @ '' ('' @ render (e_status e) @ ''): '' @ render (e_detail e)))
      else if truthy (e_code e) \<and> e_source e \<noteq> None \<and> truthy (e_detail e)
      then Some (PterodactylAPIError (render (e_detail e)))
      else throw_first es)"

text \<open>\<^verbatim>\<open>APIRequest(options, supressErrors)\<close>. A result \<open>None\<close> is the \<^verbatim>\<open>undefined\<close> the
  function resolves with when it runs off its end.\<close>

definition APIRequest ::
  "network \<Rightarrow> AxiosRequestConfig \<Rightarrow> nat list \<Rightarrow> AxiosResponse option io" where
  "APIRequest net options supressErrors sent =
     (let sent' = sent @ [options] in
      case makeRequest (net sent options) of
        Inl thrown \<Rightarrow> (Inl thrown, sent')
      | Inr (Some response', error) \<Rightarrow>
          if status response' = 200 \<or> status response' \<in> set supressErrors
          then (Inr (Some response'), sent')
          else (Inl (PterodactylAPIError
                       (''An unexpected error occurred ('' @ toString (status response') @ ''): ''
                          @ statusText response')), sent')
      | Inr (None, Some errors) \<Rightarrow>
          (case throw_first errors of
             Some thrown \<Rightarrow> (Inl thrown, sent')
           | None \<Rightarrow> (Inr None, sent'))
      | Inr (None, None) \<Rightarrow> (Inl TypeError, sent'))"

section \<open>Operations of \<^verbatim>\<open>File\<close>\<close>

definition request ::
  "Client \<Rightarrow> string \<Rightarrow> string \<Rightarrow> string \<Rightarrow> json option \<Rightarrow> AxiosRequestConfig" where
  "request c m u contentType b =
     \<lparr> http_method = m, maxRedirects = 5, url = u,
       headers = [(''Accept'', ''application/json''),
                  (''Content-Type'', contentType),
                  (''Authorization'', ''Bearer '' @ token c)],
       body = b \<rparr>"

definition files_url :: "Server \<Rightarrow> string \<Rightarrow> string" where
  "files_url srv rest = host (client srv) @ ''/api/client/servers/'' @ server_identifier srv @ ''/files/'' @ rest"

definition unverified :: failure where
  "unverified = PterodactylAPIError CLIENT_UNVERIFIED_ERROR"

text \<open>\<^verbatim>\<open>response.data.data\<close> as the iterable of a \<^verbatim>\<open>for ... of\<close>: anything but a listing
  payload, or an \<^verbatim>\<open>undefined\<close> response, is a \<^verbatim>\<open>TypeError\<close>.\<close>

definition data_data :: "AxiosResponse option \<Rightarrow> FileData list io" where
  "data_data r =
     (case r of
        None \<Rightarrow> throw TypeError
      | Some r' \<Rightarrow> (case data r' of FileList files \<Rightarrow> return files | _ \<Rightarrow> throw TypeError))"

definition list_request :: "Server \<Rightarrow> string \<Rightarrow> AxiosRequestConfig" where
  "list_request srv directory =
     request (client srv) ''get'' (files_url srv (''list?directory='' @ directory)) ''application/json'' None"

definition getChildren :: "network \<Rightarrow> File \<Rightarrow> File list io" where
  "getChildren net this =
     (if \<not> isDirectory this
      then throw (PterodactylAPIError
                    ''This file is not a directory, you cannot get it's children!'')
      else if \<not> verified (client (server this)) then throw unverified
      else await (APIRequest net (list_request (server this) (location this)) []) (\<lambda>response'.
           await (data_data response') (\<lambda>files.
           return (map (\<lambda>file. new_File file (server this) (location this)) files))))"

definition rename_request :: "File \<Rightarrow> string \<Rightarrow> AxiosRequestConfig" where
  "rename_request this name' =
     request (client (server this)) ''put'' (files_url (server this) ''rename'') ''application/json''
       (Some (JObject [(''root'', JString (root this)),
                       (''files'', JArray [JObject [(''from'', JString (name this)),
                                                    (''to'', JString name')]])]))"

definition rename :: "network \<Rightarrow> File \<Rightarrow> string \<Rightarrow> File io" where
  "rename net this name' =
     (if \<not> verified (client (server this)) then throw unverified
      else await (APIRequest net (rename_request this name') [204]) (\<lambda>response0.
           await (APIRequest net (list_request (server this) (root this)) []) (\<lambda>response1.
           await (data_data response1) (\<lambda>files.
           case find (\<lambda>file. attr_name (attributes file) = name') files of
             Some file \<Rightarrow> return (new_File file (server this) (root this))
           | None \<Rightarrow> throw (PterodactylAPIError ''Unable to complete the operation'')))))"

definition sync :: "network \<Rightarrow> File \<Rightarrow> File io" where
  "sync net this =
     (if \<not> verified (client (server this)) then throw unverified
      else await (APIRequest net (list_request (server this) (root this)) []) (\<lambda>response1.
           await (data_data response1) (\<lambda>files.
           case find (\<lambda>file. attr_name (attributes file) = name this) files of
             Some file \<Rightarrow> return (new_File file (server this) (root this))
           | None \<Rightarrow> throw (PterodactylAPIError
                                ''Unable to find the file, has it been renamed?''))))"

definition duplicate_request :: "File \<Rightarrow> string \<Rightarrow> string \<Rightarrow> AxiosRequestConfig" where
  "duplicate_request this toLocation0 newName =
     (let toLocation = (if endsWith toLocation0 ''/'' then slice_0_m1 toLocation0 else toLocation0);
          copyName = (if length newName = 0 then name this else newName)
      in request (client (server this)) ''post'' (files_url (server this) ''copy'') ''application/json''
           (Some (JObject [(''location'', JString (toLocation @ ''/'' @ copyName))])))"

text \<open>\<^verbatim>\<open>duplicate(toLocation, newName = "")\<close>.\<close>

definition duplicate :: "network \<Rightarrow> File \<Rightarrow> string \<Rightarrow> string \<Rightarrow> bool io" where
  "duplicate net this toLocation newName =
     (if \<not> verified (client (server this)) then throw unverified
      else await (APIRequest net (duplicate_request this toLocation newName) [204]) (\<lambda>response0.
           return True))"

definition write_request :: "Server \<Rightarrow> string \<Rightarrow> string \<Rightarrow> AxiosRequestConfig" where
  "write_request srv path contents =
     request (client srv) ''post'' (files_url srv (''write?file='' @ path)) ''text/plain''
       (Some (JString contents))"

text \<open>The tail shared by \<^verbatim>\<open>write\<close>, \<^verbatim>\<open>writeChild\<close> and \<^verbatim>\<open>FileManager.writeFile\<close> once
  \<open>path\<close> is fixed: the write, the split of the path, the listing of its parent and the
  search, which ends without a \<^verbatim>\<open>return\<close> when no entry has the name.\<close>

definition write_and_relist :: "network \<Rightarrow> Server \<Rightarrow> string \<Rightarrow> string \<Rightarrow> File option io" where
  "write_and_relist net srv path contents =
     await (APIRequest net (write_request srv path contents) [204]) (\<lambda>response0.
       let (name', pathList) = pop (split path CHR ''/'');
           root' = join pathList ''/''
       in await (APIRequest net (list_request srv root') []) (\<lambda>response1.
          await (data_data response1) (\<lambda>files.
          case find (\<lambda>file. Some (attr_name (attributes file)) = name') files of
            Some file \<Rightarrow> return (Some (new_File file srv root'))
          | None \<Rightarrow> return None)))"

text \<open>The path \<^verbatim>\<open>write(contents, path?)\<close> resolves; \<open>None\<close> is the omitted argument.\<close>

definition write_path :: "File \<Rightarrow> string option \<Rightarrow> string" where
  "write_path this path =
     (let base = (if endsWith (root this) ''/'' then slice_0_m1 (root this) else root this)
      in case path of
           None \<Rightarrow> base @ ''/'' @ name this
         | Some p \<Rightarrow> base @ ''/'' @ (if startsWith p ''/'' then slice_1 p else p))"

text \<open>\<open>File_write\<close> is the method \<^verbatim>\<open>write\<close>.\<close>

definition File_write :: "network \<Rightarrow> File \<Rightarrow> string \<Rightarrow> string option \<Rightarrow> File option io" where
  "File_write net this contents path =
     (if isDirectory this
      then throw (PterodactylAPIError
                    ''A directory has no file contents, did you mean writeChild?'')
      else if \<not> verified (client (server this)) then throw unverified
      else write_and_relist net (server this) (write_path this path) contents)"

definition writeChild_path :: "File \<Rightarrow> string \<Rightarrow> string" where
  "writeChild_path this path =
     (let base = (if endsWith (location this) ''/'' then slice_0_m1 (location this)
                  else location this)
      in base @ ''/'' @ (if startsWith path ''/'' then slice_1 path else path))"

definition writeChild :: "network \<Rightarrow> File \<Rightarrow> string \<Rightarrow> string \<Rightarrow> File option io" where
  "writeChild net this contents path =
     (if \<not> isDirectory this
      then throw (PterodactylAPIError
                    ''This is a file, not a directory. You cannot add or edit a child from it.'')
      else if \<not> verified (client (server this)) then throw unverified
      else write_and_relist net (server this) (writeChild_path this path) contents)"

text \<open>The path both \<^verbatim>\<open>addDirectory\<close> methods put in the \<^verbatim>\<open>file\<close> parameter.\<close>

definition create_folder_path :: "string \<Rightarrow> string \<Rightarrow> string" where
  "create_folder_path location' name' = location' @ ''/'' @ name'"

definition create_folder_request :: "Server \<Rightarrow> string \<Rightarrow> string \<Rightarrow> AxiosRequestConfig" where
  "create_folder_request srv location' name' =
     request (client srv) ''post'' (files_url srv (''create-folder?file='' @ create_folder_path location' name'))
       ''application/json''
       (Some (JObject [(''root'', JString location'), (''name'', JString name')]))"

text \<open>The tail shared by both \<^verbatim>\<open>addDirectory\<close> methods once \<open>location\<close> is fixed.\<close>

definition create_and_relist :: "network \<Rightarrow> Server \<Rightarrow> string \<Rightarrow> string \<Rightarrow> File option io" where
  "create_and_relist net srv location' name' =
     await (APIRequest net (create_folder_request srv location' name') [204]) (\<lambda>response0.
     await (APIRequest net (list_request srv location') []) (\<lambda>response1.
     await (data_data response1) (\<lambda>files.
     case find (\<lambda>file. attr_name (attributes file) = name') files of
       Some file \<Rightarrow> return (Some (new_File file srv location'))
     | None \<Rightarrow> return None)))"

text \<open>The directory \<^verbatim>\<open>addDirectory(name, location = "/")\<close> resolves.\<close>

definition addDirectory_location :: "File \<Rightarrow> string \<Rightarrow> string" where
  "addDirectory_location this location0 =
     (let location' = (if endsWith location0 ''/'' then slice_0_m1 location0 else location0)
      in if isDirectory this then location this @ location' else root this @ location')"

definition addDirectory :: "network \<Rightarrow> File \<Rightarrow> string \<Rightarrow> string \<Rightarrow> File option io" where
  "addDirectory net this name' location0 =
     (if \<not> verified (client (server this)) then throw unverified
      else create_and_relist net (server this) (addDirectory_location this location0) name')"

definition compress_request :: "File \<Rightarrow> AxiosRequestConfig" where
  "compress_request this =
     request (client (server this)) ''post'' (files_url (server this) ''compress'') ''application/json''
       (Some (JObject [(''root'', JString (root this)),
                       (''files'', JArray [JString (name this)])]))"

text \<open>\<^verbatim>\<open>compress\<close> builds the file from the response payload itself; a payload that is
  not a file object has no \<^verbatim>\<open>attributes\<close> to read a name from.\<close>

definition compress :: "network \<Rightarrow> File \<Rightarrow> File io" where
  "compress net this =
     (if \<not> verified (client (server this)) then throw unverified
      else await (APIRequest net (compress_request this) []) (\<lambda>response'.
           case response' of
             None \<Rightarrow> throw TypeError
           | Some r \<Rightarrow> (case data r of
                         FileObject file \<Rightarrow> return (new_File file (server this) (root this))
                       | _ \<Rightarrow> throw TypeError)))"

definition delete_request :: "File \<Rightarrow> AxiosRequestConfig" where
  "delete_request this =
     request (client (server this)) ''post'' (files_url (server this) ''delete'') ''application/json''
       (Some (JObject [(''root'', JString (root this)),
                       (''files'', JArray [JString (name this)])]))"

definition delete :: "network \<Rightarrow> File \<Rightarrow> bool io" where
  "delete net this =
     (if \<not> verified (client (server this)) then throw unverified
      else await (APIRequest net (delete_request this) [204]) (\<lambda>response'.
           return True))"

definition decompress_request :: "File \<Rightarrow> AxiosRequestConfig" where
  "decompress_request this =
     request (client (server this)) ''post'' (files_url (server this) ''decompress'') ''application/json''
       (Some (JObject [(''root'', JString (root this)),
                       (''file'', JString (name this))]))"

text \<open>
  \<^verbatim>\<open>decompress(deleteSelf = false)\<close>. The call \<^verbatim>\<open>this.delete()\<close> is not awaited: its
  request is issued, and however it settles, \<^verbatim>\<open>decompress\<close> goes on to \<^verbatim>\<open>return true\<close>.
\<close>

definition decompress :: "network \<Rightarrow> File \<Rightarrow> bool \<Rightarrow> bool io" where
  "decompress net this deleteSelf =
     (if \<not> verified (client (server this)) then throw unverified
      else await (APIRequest net (decompress_request this) [204]) (\<lambda>response'.
           (\<lambda>sent. return True (snd (delete net this sent)))))"

section \<open>Operations of \<^verbatim>\<open>FileManager\<close>\<close>

text \<open>\<open>manager_server\<close> is the private field \<^verbatim>\<open>server\<close> of the class.\<close>

record FileManager =
  contents :: "File list"
  manager_server :: Server

text \<open>The constructor, from the \<^verbatim>\<open>data\<close> of a \<^verbatim>\<open>FileList\<close>.\<close>

definition new_FileManager :: "FileData list \<Rightarrow> Server \<Rightarrow> FileManager" where
  "new_FileManager data' server' =
     \<lparr> contents = map (\<lambda>file. new_File file server' []) data', manager_server = server' \<rparr>"

definition getChild :: "FileManager \<Rightarrow> string \<Rightarrow> File option" where
  "getChild this name' = find (\<lambda>file. name file = name') (contents this)"

definition getFolderContents :: "network \<Rightarrow> FileManager \<Rightarrow> string \<Rightarrow> File list io" where
  "getFolderContents net this path =
     (if \<not> verified (client (manager_server this)) then throw unverified
      else await (APIRequest net (list_request (manager_server this) path) []) (\<lambda>response'.
           await (data_data response') (\<lambda>files.
           return (map (\<lambda>file. new_File file (manager_server this) []) files))))"

definition writeFile_path :: "string \<Rightarrow> string" where
  "writeFile_path path = (if startsWith path ''/'' then slice_1 path else path)"

definition writeFile :: "network \<Rightarrow> FileManager \<Rightarrow> string \<Rightarrow> string \<Rightarrow> File option io" where
  "writeFile net this contents' path =
     (if \<not> verified (client (manager_server this)) then throw unverified
      else write_and_relist net (manager_server this) (writeFile_path path) contents')"

text \<open>The directory \<^verbatim>\<open>FileManager.addDirectory(name, location = "/")\<close> uses: a trailing
  separator is dropped only from a location longer than one character.\<close>

definition manager_addDirectory_location :: "string \<Rightarrow> string" where
  "manager_addDirectory_location location0 =
     (if length location0 > 1
      then (if endsWith location0 ''/'' then slice_0_m1 location0 else location0)
      else location0)"

definition manager_addDirectory ::
  "network \<Rightarrow> FileManager \<Rightarrow> string \<Rightarrow> string \<Rightarrow> File option io" where
  "manager_addDirectory net this name' location0 =
     (if \<not> verified (client (manager_server this)) then throw unverified
      else create_and_relist net (manager_server this)
             (manager_addDirectory_location location0) name')"

text \<open>\<^verbatim>\<open>FileManager.sync\<close> replaces \<^verbatim>\<open>contents\<close> and returns the manager.\<close>

definition manager_sync :: "network \<Rightarrow> FileManager \<Rightarrow> FileManager io" where
  "manager_sync net this =
     (if \<not> verified (client (manager_server this)) then throw unverified
      else await (APIRequest net
                    (request (client (manager_server this)) ''get''
                       (files_url (manager_server this) ''list'') ''application/json'' None) [])
             (\<lambda>response'.
           await (data_data response') (\<lambda>files.
           return (this\<lparr> contents := map (\<lambda>file. new_File file (manager_server this) []) files \<rparr>))))"

section \<open>Notions the properties are stated with\<close>

text \<open>The specification's \<^verbatim>\<open>trimTrailingSeparator\<close>: drops exactly one trailing
  separator if present. The source has no such function; it repeats the test and the slice
  in place, and \<open>trim_in_place\<close> below relates the two.\<close>

definition trimTrailingSeparator :: "string \<Rightarrow> string" where
  "trimTrailingSeparator p = (if p \<noteq> [] \<and> last p = CHR ''/'' then butlast p else p)"

text \<open>Two adjacent separators somewhere in a path.\<close>

fun double_separator :: "string \<Rightarrow> bool" where
  "double_separator (a # b # s) = ((a = CHR ''/'' \<and> b = CHR ''/'') \<or> double_separator (b # s))"
| "double_separator _ = False"

text \<open>An absolute path without a double separator.\<close>

definition valid_path :: "string \<Rightarrow> bool" where
  "valid_path p = (p \<noteq> [] \<and> hd p = CHR ''/'' \<and> \<not> double_separator p)"

text \<open>A single name or a relative path: no double separator, no leading separator.\<close>

definition valid_name :: "string \<Rightarrow> bool" where
  "valid_name n = (\<not> double_separator n \<and> (n = [] \<or> hd n \<noteq> CHR ''/''))"

text \<open>The location invariant on an entity alone: some trimmed parent \<open>t\<close> gives
  \<open>location = t + "/" + name\<close>, with \<open>root\<close> the separator when \<open>t\<close> is empty and \<open>t\<close>
  otherwise.\<close>

definition location_invariant :: "File \<Rightarrow> bool" where
  "location_invariant f =
     ((root f = ''/'' \<and> location f = ''/'' @ name f) \<or>
      (root f \<noteq> [] \<and> location f = root f @ ''/'' @ name f))"

text \<open>The entities handed out by the operations that construct a \<^verbatim>\<open>File\<close>.\<close>

inductive returned :: "File \<Rightarrow> bool" where
  by_getChildren: "fst (getChildren net this sent) = Inr fs \<Longrightarrow> f \<in> set fs \<Longrightarrow> returned f"
| by_rename: "fst (rename net this name' sent) = Inr f \<Longrightarrow> returned f"
| by_sync: "fst (sync net this sent) = Inr f \<Longrightarrow> returned f"
| by_write: "fst (File_write net this text' path sent) = Inr (Some f) \<Longrightarrow> returned f"
| by_writeChild: "fst (writeChild net this text' path' sent) = Inr (Some f) \<Longrightarrow> returned f"
| by_addDirectory: "fst (addDirectory net this name' location' sent) = Inr (Some f) \<Longrightarrow> returned f"
| by_compress: "fst (compress net this sent) = Inr f \<Longrightarrow> returned f"
| by_new_FileManager: "f \<in> set (contents (new_FileManager files srv)) \<Longrightarrow> returned f"
| by_getFolderContents:
    "fst (getFolderContents net manager path' sent) = Inr fs \<Longrightarrow> f \<in> set fs \<Longrightarrow> returned f"
| by_writeFile: "fst (writeFile net manager text' path' sent) = Inr (Some f) \<Longrightarrow> returned f"
| by_manager_addDirectory:
    "fst (manager_addDirectory net manager name' location' sent) = Inr (Some f) \<Longrightarrow> returned f"
| by_manager_sync:
    "fst (manager_sync net manager sent) = Inr manager' \<Longrightarrow> f \<in> set (contents manager') \<Longrightarrow>
     returned f"

section \<open>Fixtures\<close>

definition fixture_client :: Client where
  "fixture_client = \<lparr> host = ''https://panel.example'', token = ''t0ken'', verified = True \<rparr>"

definition fixture_server :: Server where
  "fixture_server = \<lparr> server_identifier = ''1a2b3c4d'', client = fixture_client \<rparr>"

definition fixture_manager :: FileManager where
  "fixture_manager = new_FileManager [] fixture_server"

text \<open>A listing entry with the given name, mode string and size.\<close>

definition entry :: "string \<Rightarrow> string \<Rightarrow> int \<Rightarrow> FileData" where
  "entry n m sz =
     \<lparr> attributes =
         \<lparr> attr_name = n, attr_mode = m, attr_size = sz, is_file = (take 1 m \<noteq> ''d''),
           is_symlink = False, is_editable = True, mimetype = ''text/plain'',
           created_at = ''2021-01-01T00:00:00+00:00'', modified_at = None \<rparr> \<rparr>"

text \<open>An upstream that settles the requests in order with the given outcomes, and refuses
  the connection afterwards.\<close>

definition scripted :: "axios_outcome list \<Rightarrow> network" where
  "scripted outcomes sent options =
     (if length sent < length outcomes then outcomes ! length sent
      else Rejected \<lparr> response = None, code = Some ''ECONNREFUSED'' \<rparr>)"

definition no_content :: axios_outcome where
  "no_content = Resolved \<lparr> status = 204, statusText = ''No Content'', data = Empty \<rparr>"

definition ok_listing :: "FileData list \<Rightarrow> axios_outcome" where
  "ok_listing files = Resolved \<lparr> status = 200, statusText = ''OK'', data = FileList files \<rparr>"

text \<open>A response the HTTP client rejects, carrying an error list.\<close>

definition rejected_with :: "nat \<Rightarrow> string \<Rightarrow> error_element list \<Rightarrow> axios_outcome" where
  "rejected_with st txt errors =
     Rejected \<lparr> response = Some \<lparr> status = st, statusText = txt, data = ErrorBody errors \<rparr>,
                code = None \<rparr>"

text \<open>A regular file \<^verbatim>\<open>a.txt\<close> of two bytes, constructed under the given parent.\<close>

definition fixture_file :: "string \<Rightarrow> File" where
  "fixture_file parent = new_File (entry ''a.txt'' ''-rw-r--'' 2) fixture_server parent"

text \<open>A directory \<^verbatim>\<open>world\<close>, constructed under the given parent.\<close>

definition fixture_directory :: "string \<Rightarrow> File" where
  "fixture_directory parent = new_File (entry ''world'' ''drwxr-x'' 0) fixture_server parent"

text \<open>The error element \<^verbatim>\<open>{code: "E1", status: st, detail: "boom"}\<close>, and a validation error
  \<^verbatim>\<open>{code, source, detail}\<close> without a status.\<close>

definition E1 :: "string \<Rightarrow> error_element" where
  "E1 st = \<lparr> e_code = Some ''E1'', e_status = Some st, e_source = None, e_detail = Some ''boom'' \<rparr>"

definition validation_error :: error_element where
  "validation_error =
     \<lparr> e_code = Some ''required'', e_status = None, e_source = Some [(''field'', ''name'')],
       e_detail = Some ''The name field is required.'' \<rparr>"

text \<open>The element \<^verbatim>\<open>{code: "E1", detail: "boom"}\<close>, with neither a status nor a source.\<close>

definition E1_unshaped :: error_element where
  "E1_unshaped = \<lparr> e_code = Some ''E1'', e_status = None, e_source = None, e_detail = Some ''boom'' \<rparr>"

text \<open>A response the HTTP client rejects, carrying a text body and no error list.\<close>

definition rejected_plain :: "nat \<Rightarrow> string \<Rightarrow> string \<Rightarrow> axios_outcome" where
  "rejected_plain st txt content =
     Rejected \<lparr> response = Some \<lparr> status = st, statusText = txt, data = Text content \<rparr>,
                code = None \<rparr>"

section \<open>String primitives\<close>

lemma endsWith_slash: "endsWith s ''/'' \<longleftrightarrow> s \<noteq> [] \<and> last s = CHR ''/''"
proof (cases s rule: rev_cases)
  case Nil
  then show ?thesis by (simp add: endsWith_def)
next
  case (snoc ys y)
  then show ?thesis by (simp add: endsWith_def)
qed

lemma slice_0_m1_butlast: "slice_0_m1 s = butlast s"
  by (simp add: slice_0_m1_def butlast_conv_take)

lemma startsWith_slash: "startsWith s ''/'' \<longleftrightarrow> s \<noteq> [] \<and> hd s = CHR ''/''"
  by (cases s) (simp_all add: startsWith_def)

lemma slice_1_tl: "slice_1 s = tl s"
  by (simp add: slice_1_def drop_Suc)

lemma trim_in_place:
  "(if endsWith p ''/'' then slice_0_m1 p else p) = trimTrailingSeparator p"
  by (simp add: endsWith_slash slice_0_m1_butlast trimTrailingSeparator_def)

lemma trim_eq_slash: "trimTrailingSeparator p = ''/'' \<longleftrightarrow> p = ''//''"
proof (cases p rule: rev_cases)
  case Nil
  then show ?thesis by (simp add: trimTrailingSeparator_def)
next
  case (snoc ys y)
  then show ?thesis by (auto simp add: trimTrailingSeparator_def)
qed

section \<open>The constructor\<close>

lemma new_File_location:
  "location (new_File d srv p) = trimTrailingSeparator p @ ''/'' @ attr_name (attributes d)"
  by (simp add: new_File_def Let_def trim_in_place)

lemma new_File_root:
  "root (new_File d srv p) =
     (if trimTrailingSeparator p = [] then ''/'' else trimTrailingSeparator p)"
  by (simp add: new_File_def Let_def trim_in_place)

lemma new_File_name: "name (new_File d srv p) = attr_name (attributes d)"
  by (simp add: new_File_def Let_def)

lemma new_File_invariant: "location_invariant (new_File d srv p)"
  by (simp add: location_invariant_def new_File_location new_File_root new_File_name)

section \<open>Sequencing\<close>

lemma await_Inr:
  assumes "fst (await m k sent) = Inr y"
  obtains x sent' where "m sent = (Inr x, sent')" and "fst (k x sent') = Inr y"
  using assms by (auto simp add: await_def split: prod.splits sum.splits)

lemma return_Inr: "fst (return x sent) = Inr y \<longleftrightarrow> x = y"
  by (simp add: return_def)

lemma throw_Inr: "fst (throw e sent) \<noteq> Inr y"
  by (simp add: throw_def)

lemma write_and_relist_invariant:
  assumes "fst (write_and_relist net srv path text' sent) = Inr (Some f)"
  shows "location_invariant f"
  using assms unfolding write_and_relist_def
  by (auto elim!: await_Inr simp add: Let_def return_def new_File_invariant
           split: prod.splits option.splits)

lemma create_and_relist_invariant:
  assumes "fst (create_and_relist net srv loc n sent) = Inr (Some f)"
  shows "location_invariant f"
  using assms unfolding create_and_relist_def
  by (auto elim!: await_Inr simp add: return_def new_File_invariant split: option.splits)

lemma returned_invariant:
  assumes "returned f"
  shows "location_invariant f"
  using assms
proof cases
  case (by_getChildren net this sent fs)
  then show ?thesis
    by (auto simp add: getChildren_def throw_Inr return_def new_File_invariant elim!: await_Inr split: if_splits)
next
  case (by_rename net this name' sent)
  then show ?thesis
    by (auto simp add: rename_def throw_Inr return_def new_File_invariant elim!: await_Inr split: if_splits option.splits)
next
  case (by_sync net this sent)
  then show ?thesis
    by (auto simp add: sync_def throw_Inr return_def new_File_invariant elim!: await_Inr split: if_splits option.splits)
next
  case (by_write net this text' path sent)
  then show ?thesis
    by (auto simp add: File_write_def throw_Inr dest: write_and_relist_invariant split: if_splits)
next
  case (by_writeChild net this text' path' sent)
  then show ?thesis
    by (auto simp add: writeChild_def throw_Inr dest: write_and_relist_invariant split: if_splits)
next
  case (by_addDirectory net this name' location' sent)
  then show ?thesis
    by (auto simp add: addDirectory_def throw_Inr dest: create_and_relist_invariant split: if_splits)
next
  case (by_compress net this sent)
  then show ?thesis
    by (auto simp add: compress_def throw_Inr return_def new_File_invariant elim!: await_Inr split: if_splits option.splits payload.splits)
next
  case (by_new_FileManager files srv)
  then show ?thesis by (auto simp add: new_FileManager_def new_File_invariant)
next
  case (by_getFolderContents net manager path' sent fs)
  then show ?thesis
    by (auto simp add: getFolderContents_def throw_Inr return_def new_File_invariant elim!: await_Inr split: if_splits)
next
  case (by_writeFile net manager text' path' sent)
  then show ?thesis
    by (auto simp add: writeFile_def throw_Inr dest: write_and_relist_invariant split: if_splits)
next
  case (by_manager_addDirectory net manager name' location' sent)
  then show ?thesis
    by (auto simp add: manager_addDirectory_def throw_Inr dest: create_and_relist_invariant split: if_splits)
next
  case (by_manager_sync net manager sent manager')
  then show ?thesis
    by (auto simp add: manager_sync_def throw_Inr return_def new_File_invariant elim!: await_Inr split: if_splits)
qed

section \<open>Evaluation on the fixtures\<close>

lemma APIRequest_sent: "snd (APIRequest net options supressErrors sent) = sent @ [options]"
  by (simp add: APIRequest_def Let_def split: sum.splits prod.splits option.splits)

lemma APIRequest_success:
  assumes "net sent options = Resolved r" and "status r = 200 \<or> status r \<in> set supressErrors"
  shows "APIRequest net options supressErrors sent = (Inr (Some r), sent @ [options])"
  using assms by (simp add: APIRequest_def makeRequest_def Let_def)

lemma scripted_nth:
  "length sent < length outcomes \<Longrightarrow> scripted outcomes sent options = outcomes ! length sent"
  by (simp add: scripted_def)

lemma verified_fixture: "verified (client fixture_server)"
  by (simp add: fixture_server_def fixture_client_def)

lemma fixture_file_name: "name (fixture_file p) = ''a.txt''"
  by (simp add: fixture_file_def new_File_name entry_def)

lemma fixture_file_server: "server (fixture_file p) = fixture_server"
  by (simp add: fixture_file_def new_File_def Let_def)

lemma sync_fixture:
  "sync (scripted [ok_listing [entry ''a.txt'' ''-rw-r--'' 2]]) (fixture_file ''/games'') [] =
     (Inr (fixture_file ''/games''), [list_request fixture_server ''/games''])"
proof -
  let ?net = "scripted [ok_listing [entry ''a.txt'' ''-rw-r--'' 2]]"
  have root: "root (fixture_file ''/games'') = ''/games''"
    by (simp add: fixture_file_def new_File_root trimTrailingSeparator_def)
  have req: "APIRequest ?net (list_request fixture_server ''/games'') [] [] =
      (Inr (Some \<lparr> status = 200, statusText = ''OK'', data = FileList [entry ''a.txt'' ''-rw-r--'' 2] \<rparr>),
       [list_request fixture_server ''/games''])"
    by (rule APIRequest_success [where sent = "[]", simplified]) (simp_all add: scripted_def ok_listing_def)
  show ?thesis
    by (simp add: sync_def verified_fixture root fixture_file_server fixture_file_name await_def req
        data_data_def return_def)
      (simp add: fixture_file_def entry_def)
qed

lemma fixture_file_fields:
  "root (fixture_file ''/games'') = ''/games''"
  "name (fixture_file ''/games'') = ''a.txt''"
  "location (fixture_file ''/games'') = ''/games/a.txt''"
  "\<not> isDirectory (fixture_file ''/games'')"
  by (simp_all add: fixture_file_def new_File_def Let_def entry_def endsWith_def charAt_def)

lemma fixture_directory_fields:
  "location (fixture_directory ''/games'') = ''/games/world''"
  "isDirectory (fixture_directory ''/games'')"
  by (simp_all add: fixture_directory_def new_File_def Let_def entry_def endsWith_def charAt_def)

section \<open>Requests issued\<close>

lemma await_APIRequest:
  "await (APIRequest net options supressErrors) k sent =
     (case fst (APIRequest net options supressErrors sent) of
        Inl e \<Rightarrow> (Inl e, sent @ [options])
      | Inr x \<Rightarrow> k x (sent @ [options]))"
proof -
  obtain res where "APIRequest net options supressErrors sent = (res, sent @ [options])"
    using APIRequest_sent [of net options supressErrors sent]
    by (cases "APIRequest net options supressErrors sent") simp
  then show ?thesis
    by (simp add: await_def split: sum.splits)
qed

lemma delete_sent:
  "verified (client (server this)) \<Longrightarrow> snd (delete net this sent) = sent @ [delete_request this]"
  by (simp add: delete_def await_APIRequest return_def split: sum.splits)

lemma prefix_first [simp]: "prefix (sent @ [rq]) (sent @ rq # rest)"
  by simp

lemma data_data_sent: "snd (data_data r sent) = sent"
  by (simp add: data_data_def throw_def return_def split: option.splits payload.splits)

lemma await_data_data:
  "await (data_data r) k sent =
     (case fst (data_data r sent) of Inl e \<Rightarrow> (Inl e, sent) | Inr x \<Rightarrow> k x sent)"
proof -
  obtain res where "data_data r sent = (res, sent)"
    using data_data_sent [of r sent] by (cases "data_data r sent") simp
  then show ?thesis by (simp add: await_def split: sum.splits)
qed

lemma create_and_relist_first:
  "prefix (sent @ [create_folder_request srv loc n]) (snd (create_and_relist net srv loc n sent))"
  by (simp add: create_and_relist_def await_APIRequest await_data_data return_def
      split: sum.splits option.splits)

lemma rename_first:
  "verified (client (server this)) \<Longrightarrow>
   prefix (sent @ [rename_request this n]) (snd (rename net this n sent))"
  by (simp add: rename_def await_APIRequest await_data_data return_def throw_def
      split: sum.splits option.splits)

lemma duplicate_first:
  "verified (client (server this)) \<Longrightarrow>
   prefix (sent @ [duplicate_request this to new]) (snd (duplicate net this to new sent))"
  by (simp add: duplicate_def await_APIRequest return_def split: sum.splits)

lemma delete_first:
  "verified (client (server this)) \<Longrightarrow>
   prefix (sent @ [delete_request this]) (snd (delete net this sent))"
  by (simp add: delete_sent)

lemma compress_first:
  "verified (client (server this)) \<Longrightarrow>
   prefix (sent @ [compress_request this]) (snd (compress net this sent))"
  by (simp add: compress_def await_APIRequest return_def throw_def
      split: sum.splits option.splits payload.splits)

lemma decompress_first:
  "verified (client (server this)) \<Longrightarrow>
   prefix (sent @ [decompress_request this]) (snd (decompress net this b sent))"
  by (simp add: decompress_def await_APIRequest delete_sent return_def split: sum.splits)

lemma addDirectory_first:
  "verified (client (server this)) \<Longrightarrow>
   prefix (sent @ [create_folder_request (server this) (addDirectory_location this loc) n])
     (snd (addDirectory net this n loc sent))"
  by (simp add: addDirectory_def create_and_relist_first)

lemma manager_addDirectory_first:
  "verified (client (manager_server m)) \<Longrightarrow>
   prefix (sent @ [create_folder_request (manager_server m) (manager_addDirectory_location loc) n])
     (snd (manager_addDirectory net m n loc sent))"
  by (simp add: manager_addDirectory_def create_and_relist_first)

lemma APIRequest_rejected:
  assumes "net sent options = Rejected err" and "response err = Some r" and "status r \<noteq> 403"
    and "data r = ErrorBody errors"
  shows "fst (APIRequest net options supressErrors sent) =
     (case throw_first errors of Some thrown \<Rightarrow> Inl thrown | None \<Rightarrow> Inr None)"
  using assms
  by (simp add: APIRequest_def makeRequest_def data_errors_def Let_def split: option.splits)

section \<open>Paths\<close>

lemma double_separator_Cons:
  "double_separator (a # s) \<longleftrightarrow> (a = CHR ''/'' \<and> s \<noteq> [] \<and> hd s = CHR ''/'') \<or> double_separator s"
  by (cases s) auto

lemma double_separator_append:
  "double_separator (a @ b) \<longleftrightarrow>
     double_separator a \<or> double_separator b \<or>
     (a \<noteq> [] \<and> b \<noteq> [] \<and> last a = CHR ''/'' \<and> hd b = CHR ''/'')"
proof (induction a)
  case Nil
  then show ?case by simp
next
  case (Cons x xs)
  show ?case
  proof (cases xs)
    case Nil
    then show ?thesis by (auto simp add: double_separator_Cons)
  next
    case (Cons y ys)
    with Cons.IH show ?thesis
      by (auto simp add: double_separator_Cons)
  qed
qed

lemma trim_no_double:
  assumes "\<not> double_separator p"
  shows "\<not> double_separator (trimTrailingSeparator p)"
    and "trimTrailingSeparator p = [] \<or> last (trimTrailingSeparator p) \<noteq> CHR ''/''"
proof -
  show "\<not> double_separator (trimTrailingSeparator p)"
  proof (cases "p = []")
    case True
    then show ?thesis by (simp add: trimTrailingSeparator_def)
  next
    case False
    then have "p = butlast p @ [last p]" by simp
    then have "double_separator p = double_separator (butlast p @ [last p])" by simp
    with assms have "\<not> double_separator (butlast p)"
      by (simp add: double_separator_append)
    with assms show ?thesis by (simp add: trimTrailingSeparator_def)
  qed
  show "trimTrailingSeparator p = [] \<or> last (trimTrailingSeparator p) \<noteq> CHR ''/''"
  proof (cases "p \<noteq> [] \<and> last p = CHR ''/''")
    case False
    then show ?thesis by (auto simp add: trimTrailingSeparator_def)
  next
    case True
    then have p: "p = butlast p @ ''/''"
      by (metis append_butlast_last_id)
    have "double_separator p = double_separator (butlast p @ ''/'')"
      using p by simp
    with assms have "butlast p = [] \<or> last (butlast p) \<noteq> CHR ''/''"
      by (auto simp add: double_separator_append)
    with True show ?thesis by (simp add: trimTrailingSeparator_def)
  qed
qed

lemma trim_hd:
  "trimTrailingSeparator p \<noteq> [] \<Longrightarrow> hd (trimTrailingSeparator p) = hd p"
  by (cases p) (auto simp add: trimTrailingSeparator_def split: if_splits)

lemma strip_leading_valid:
  assumes "\<not> double_separator p"
  shows "valid_name (if startsWith p ''/'' then slice_1 p else p)"
proof (cases p)
  case Nil
  then show ?thesis by (simp add: valid_name_def startsWith_def)
next
  case (Cons x xs)
  with assms show ?thesis
    by (auto simp add: valid_name_def startsWith_slash slice_1_tl double_separator_Cons)
qed

text \<open>The join every composition ends in: a base that does not end with a separator, a
  separator, a child that does not start with one.\<close>

lemma join_valid:
  assumes "\<not> double_separator b" and "b = [] \<or> (hd b = CHR ''/'' \<and> last b \<noteq> CHR ''/'')"
    and "valid_name n"
  shows "valid_path (b @ ''/'' @ n)"
proof -
  have "\<not> double_separator (''/'' @ n)"
    using assms(3) by (auto simp add: valid_name_def double_separator_Cons)
  with assms(1,2) have "\<not> double_separator (b @ ''/'' @ n)"
    by (auto simp add: double_separator_append)
  moreover have "hd (b @ ''/'' @ n) = CHR ''/''"
    using assms(2) by (cases b) auto
  ultimately show ?thesis by (simp add: valid_path_def)
qed

lemma trimmed_base:
  assumes "valid_path r"
  shows "\<not> double_separator (trimTrailingSeparator r)"
    and "trimTrailingSeparator r = [] \<or>
         (trimTrailingSeparator r \<noteq> [] \<and> hd (trimTrailingSeparator r) = CHR ''/''
            \<and> last (trimTrailingSeparator r) \<noteq> CHR ''/'')"
  using assms trim_no_double [of r] trim_hd [of r]
  by (auto simp add: valid_path_def)

lemma write_path_valid:
  assumes "valid_path (root this)" and "valid_name c"
  shows "valid_path (trimTrailingSeparator (root this) @ ''/'' @ c)"
  using trimmed_base [OF assms(1)] assms(2) by (intro join_valid) auto

lemma untrimmed_base:
  assumes "valid_path b" and "\<not> endsWith b ''/''"
  shows "\<not> double_separator b" and "hd b = CHR ''/''" and "last b \<noteq> CHR ''/''" and "b \<noteq> []"
  using assms by (auto simp add: valid_path_def endsWith_slash)

lemma addDirectory_path_valid:
  assumes "valid_path b" and "\<not> endsWith b ''/''" and "valid_path loc" and "valid_name n"
  shows "valid_path ((b @ trimTrailingSeparator loc) @ ''/'' @ n)"
proof -
  note b = untrimmed_base [OF assms(1,2)]
  note l = trimmed_base [OF assms(3)]
  have nd: "\<not> double_separator (b @ trimTrailingSeparator loc)"
    using b l by (auto simp add: double_separator_append)
  have ends: "hd (b @ trimTrailingSeparator loc) = CHR ''/''
      \<and> last (b @ trimTrailingSeparator loc) \<noteq> CHR ''/''"
    using b l by auto
  show ?thesis
    using nd ends assms(4) by (intro join_valid) auto
qed

section \<open>Listings\<close>

lemma find_distinct_name:
  assumes "distinct (map f xs)" and "x \<in> set xs"
  shows "find (\<lambda>y. f y = f x) xs = Some x"
  using assms
proof (induction xs)
  case Nil
  then show ?case by simp
next
  case (Cons y ys)
  show ?case
  proof (cases "y = x")
    case True
    then show ?thesis by simp
  next
    case False
    with Cons.prems have "x \<in> set ys" and "f y \<noteq> f x"
      by auto
    with Cons show ?thesis by simp
  qed
qed

section \<open>The request gateway\<close>

text \<open>
  Claim C1, as amended. For every completed response that the HTTP client resolves, which
  is what \<^verbatim>\<open>makeRequest\<close> hands to \<^verbatim>\<open>APIRequest\<close> as \<^verbatim>\<open>response\<close>, the call returns that very
  response object, payload included, if and only if its status is 200 or is among the
  suppressed statuses; every other resolved status fails with the message
  \<^verbatim>\<open>An unexpected error occurred (<status>): <statusText>\<close>.
\<close>

theorem APIRequest_completed_response:
  assumes "net sent options = Resolved r"
  shows "(fst (APIRequest net options supressErrors sent) = Inr (Some r))
           = (status r = 200 \<or> status r \<in> set supressErrors)
    \<and> ((\<exists>x. fst (APIRequest net options supressErrors sent) = Inr x)
           = (status r = 200 \<or> status r \<in> set supressErrors))
    \<and> (\<not> (status r = 200 \<or> status r \<in> set supressErrors) \<longrightarrow>
          fst (APIRequest net options supressErrors sent) =
            Inl (PterodactylAPIError
                   (''An unexpected error occurred ('' @ toString (status r) @ ''): ''
                      @ statusText r)))"
  using assms by (simp add: APIRequest_def makeRequest_def Let_def)

text \<open>Status 200 passes the payload through, 204 succeeds when suppressed and fails with
  the message when it is not.\<close>

theorem APIRequest_completed_response_witness:
  "fst (APIRequest (scripted [ok_listing []]) (list_request fixture_server ''/'') [] [])
     = Inr (Some \<lparr> status = 200, statusText = ''OK'', data = FileList [] \<rparr>)
   \<and> fst (APIRequest (scripted [no_content]) (delete_request (fixture_file [])) [204] [])
     = Inr (Some \<lparr> status = 204, statusText = ''No Content'', data = Empty \<rparr>)
   \<and> fst (APIRequest (scripted [no_content]) (delete_request (fixture_file [])) [] [])
     = Inl (PterodactylAPIError ''An unexpected error occurred (204): No Content'')"
  using
    APIRequest_completed_response [of "scripted [ok_listing []]" "[]" "list_request fixture_server ''/''"
      "\<lparr> status = 200, statusText = ''OK'', data = FileList [] \<rparr>" "[]"]
    APIRequest_completed_response [of "scripted [no_content]" "[]" "delete_request (fixture_file [])"
      "\<lparr> status = 204, statusText = ''No Content'', data = Empty \<rparr>" "[204]"]
    APIRequest_completed_response [of "scripted [no_content]" "[]" "delete_request (fixture_file [])"
      "\<lparr> status = 204, statusText = ''No Content'', data = Empty \<rparr>" "[]"]
  by (simp add: scripted_def ok_listing_def no_content_def toString.simps digit_def)

text \<open>A completed response the HTTP client rejects does not reach that test. A 500 with a
  text body fails with the client's own error, not with the message; a 404 fails even when
  404 is among the suppressed statuses.\<close>

theorem rejected_response_counterexample:
  "fst (APIRequest (scripted [rejected_plain 500 ''Internal Server Error'' ''oops''])
          (list_request fixture_server ''/'') [] [])
     = Inl (Rethrown \<lparr> response = Some \<lparr> status = 500, statusText = ''Internal Server Error'',
                                          data = Text ''oops'' \<rparr>,
                        code = None \<rparr>)
   \<and> fst (APIRequest (scripted [rejected_plain 500 ''Internal Server Error'' ''oops''])
          (list_request fixture_server ''/'') [] [])
     \<noteq> Inl (PterodactylAPIError ''An unexpected error occurred (500): Internal Server Error'')
   \<and> fst (APIRequest (scripted [rejected_plain 404 ''Not Found'' ''gone''])
          (list_request fixture_server ''/'') [404] [])
     = Inl (Rethrown \<lparr> response = Some \<lparr> status = 404, statusText = ''Not Found'',
                                          data = Text ''gone'' \<rparr>,
                        code = None \<rparr>)"
  by (simp add: APIRequest_def makeRequest_def scripted_def rejected_plain_def Let_def
      data_errors_def)

text \<open>
  What the gateway does with an error list whose first element has a shape. When the HTTP
  client rejects with a response whose body carries an error list, a status 403 fails with
  \<^verbatim>\<open>Invalid API key provided, request failed\<close> and the list is not looked at. With any other
  status, a first element whose \<^verbatim>\<open>code\<close>, \<^verbatim>\<open>status\<close> and \<^verbatim>\<open>detail\<close> are present and non-empty
  makes the call fail with \<^verbatim>\<open><code> (<status>): <detail>\<close>; a first element without a status
  (absent or empty) whose \<^verbatim>\<open>code\<close>, \<^verbatim>\<open>source\<close> and \<^verbatim>\<open>detail\<close> are present makes it fail with
  the detail alone.
\<close>

lemma error_list_classification:
  assumes "net sent options = Rejected err" and "response err = Some r"
    and "data r = ErrorBody (e # es)"
  shows "(status r = 403 \<longrightarrow>
            fst (APIRequest net options supressErrors sent) =
              Inl (Error ''Invalid API key provided, request failed''))
    \<and> (status r \<noteq> 403 \<and> e_code e = Some c \<and> e_status e = Some s \<and> e_detail e = Some d
          \<and> c \<noteq> [] \<and> s \<noteq> [] \<and> d \<noteq> [] \<longrightarrow>
            fst (APIRequest net options supressErrors sent) =
              Inl (PterodactylAPIError (c @ '' ('' @ s @ ''): '' @ d)))
    \<and> (status r \<noteq> 403 \<and> e_code e = Some c \<and> (e_status e = None \<or> e_status e = Some [])
          \<and> e_source e = Some src \<and> e_detail e = Some d \<and> c \<noteq> [] \<and> d \<noteq> [] \<longrightarrow>
            fst (APIRequest net options supressErrors sent) = Inl (PterodactylAPIError d))"
proof (intro conjI impI)
  assume "status r = 403"
  with assms show "fst (APIRequest net options supressErrors sent) =
      Inl (Error ''Invalid API key provided, request failed'')"
    by (simp add: APIRequest_def makeRequest_def Let_def)
next
  assume "status r \<noteq> 403 \<and> e_code e = Some c \<and> e_status e = Some s \<and> e_detail e = Some d
          \<and> c \<noteq> [] \<and> s \<noteq> [] \<and> d \<noteq> []"
  then show "fst (APIRequest net options supressErrors sent) =
      Inl (PterodactylAPIError (c @ '' ('' @ s @ ''): '' @ d))"
    using assms APIRequest_rejected [of net sent options err r "e # es" supressErrors]
    by (simp add: truthy_def render_def)
next
  assume "status r \<noteq> 403 \<and> e_code e = Some c \<and> (e_status e = None \<or> e_status e = Some [])
          \<and> e_source e = Some src \<and> e_detail e = Some d \<and> c \<noteq> [] \<and> d \<noteq> []"
  then show "fst (APIRequest net options supressErrors sent) = Inl (PterodactylAPIError d)"
    using assms APIRequest_rejected [of net sent options err r "e # es" supressErrors]
    by (auto simp add: truthy_def render_def)
qed

text \<open>The list \<^verbatim>\<open>[{code: "E1", status: "500", detail: "boom"}]\<close> under status 500 gives
  exactly \<^verbatim>\<open>E1 (500): boom\<close>.\<close>

lemma error_list_classification_fixtures:
  "fst (APIRequest (scripted [rejected_with 403 ''Forbidden'' [E1 ''403'']])
          (list_request fixture_server ''/'') [] [])
     = Inl (Error ''Invalid API key provided, request failed'')
   \<and> fst (APIRequest (scripted [rejected_with 500 ''Internal Server Error'' [E1 ''500'']])
          (list_request fixture_server ''/'') [] [])
     = Inl (PterodactylAPIError ''E1 (500): boom'')
   \<and> fst (APIRequest (scripted [rejected_with 422 ''Unprocessable Entity'' [validation_error]])
          (list_request fixture_server ''/'') [] [])
     = Inl (PterodactylAPIError ''The name field is required.'')"
  using
    error_list_classification [where net = "scripted [rejected_with 403 ''Forbidden'' [E1 ''403'']]"
      and sent = "[]" and options = "list_request fixture_server ''/''"
      and err = "\<lparr> response = Some \<lparr> status = 403, statusText = ''Forbidden'',
                                      data = ErrorBody [E1 ''403''] \<rparr>,
                   code = None \<rparr>"
      and r = "\<lparr> status = 403, statusText = ''Forbidden'', data = ErrorBody [E1 ''403''] \<rparr>"
      and e = "E1 ''403''" and es = "[]" and supressErrors = "[]"]
    error_list_classification [where net = "scripted [rejected_with 500 ''Internal Server Error'' [E1 ''500'']]"
      and sent = "[]" and options = "list_request fixture_server ''/''"
      and err = "\<lparr> response = Some \<lparr> status = 500, statusText = ''Internal Server Error'',
                                      data = ErrorBody [E1 ''500''] \<rparr>,
                   code = None \<rparr>"
      and r = "\<lparr> status = 500, statusText = ''Internal Server Error'',
                 data = ErrorBody [E1 ''500''] \<rparr>"
      and e = "E1 ''500''" and es = "[]" and supressErrors = "[]"
      and c = "''E1''" and s = "''500''" and d = "''boom''"]
    error_list_classification [where net = "scripted [rejected_with 422 ''Unprocessable Entity'' [validation_error]]"
      and sent = "[]" and options = "list_request fixture_server ''/''"
      and err = "\<lparr> response = Some \<lparr> status = 422, statusText = ''Unprocessable Entity'',
                                      data = ErrorBody [validation_error] \<rparr>,
                   code = None \<rparr>"
      and r = "\<lparr> status = 422, statusText = ''Unprocessable Entity'',
                 data = ErrorBody [validation_error] \<rparr>"
      and e = validation_error and es = "[]" and supressErrors = "[]"
      and c = "''required''" and d = "''The name field is required.''"
      and src = "[(''field'', ''name'')]"]
  by (simp add: scripted_def rejected_with_def E1_def validation_error_def)

text \<open>A list in which no element has either shape ends the loop of \<^verbatim>\<open>APIRequest\<close> without
  a throw, whatever the status but 403: the call resolves with \<^verbatim>\<open>undefined\<close>.\<close>

lemma throw_first_unshaped:
  assumes "\<forall>e \<in> set errors.
             \<not> (truthy (e_code e) \<and> truthy (e_status e) \<and> truthy (e_detail e))
           \<and> \<not> (truthy (e_code e) \<and> e_source e \<noteq> None \<and> truthy (e_detail e))"
  shows "throw_first errors = None"
  using assms by (induction errors) simp_all

lemma unshaped_error_list_resolves:
  assumes "net sent options = Rejected err" and "response err = Some r" and "status r \<noteq> 403"
    and "data r = ErrorBody errors"
    and "\<forall>e \<in> set errors.
             \<not> (truthy (e_code e) \<and> truthy (e_status e) \<and> truthy (e_detail e))
           \<and> \<not> (truthy (e_code e) \<and> e_source e \<noteq> None \<and> truthy (e_detail e))"
  shows "APIRequest net options supressErrors sent = (Inr None, sent @ [options])"
proof -
  have "fst (APIRequest net options supressErrors sent) = Inr None"
    using APIRequest_rejected [of net sent options err r errors supressErrors] assms(1-4)
      throw_first_unshaped [OF assms(5)]
    by simp
  then show ?thesis
    using APIRequest_sent [of net options supressErrors sent]
    by (cases "APIRequest net options supressErrors sent") simp
qed

text \<open>
  Claim C2, on the source. The upstream answers 500 with the error list
  \<^verbatim>\<open>[{code: "E1", detail: "boom"}]\<close>. \<^verbatim>\<open>APIRequest\<close> does not fail: its loop ends without a
  throw and the call resolves with \<^verbatim>\<open>undefined\<close>. \<^verbatim>\<open>delete\<close>, which ignores the response,
  then returns \<^verbatim>\<open>true\<close> on that answer.
\<close>

theorem unshaped_error_list_swallowed:
  "APIRequest (scripted [rejected_with 500 ''Internal Server Error'' [E1_unshaped]])
      (list_request fixture_server ''/'') [] []
     = (Inr None, [list_request fixture_server ''/''])
   \<and> delete (scripted [rejected_with 500 ''Internal Server Error'' [E1_unshaped]])
        (fixture_file []) []
     = (Inr True, [delete_request (fixture_file [])])"
proof -
  let ?net = "scripted [rejected_with 500 ''Internal Server Error'' [E1_unshaped]]"
  have run: "APIRequest ?net options supressErrors [] = (Inr None, [options])"
    for options supressErrors
    by (simp add: APIRequest_def makeRequest_def scripted_def rejected_with_def Let_def
        data_errors_def truthy_def E1_unshaped_def)
  have "delete ?net (fixture_file []) [] = (Inr True, [delete_request (fixture_file [])])"
    by (simp add: delete_def fixture_file_server verified_fixture await_def run return_def)
  with run show ?thesis by simp
qed

section \<open>The constructor of \<^verbatim>\<open>File\<close>\<close>

text \<open>
  Claim C5, as amended. A \<^verbatim>\<open>File\<close> constructed with parent \<open>p\<close> has \<open>location\<close> equal to
  \<open>p\<close> trimmed of one trailing separator, then \<^verbatim>\<open>/\<close>, then the entry's name; its \<open>root\<close> is
  \<^verbatim>\<open>/\<close> when the trimmed parent is empty and the trimmed parent otherwise. Unless \<open>p\<close> is
  \<^verbatim>\<open>//\<close>, \<open>location\<close> is \<open>(if root = "/" then "" else root) + "/" + name\<close>. Every entity an
  operation hands out satisfies the invariant for some trimmed parent.
\<close>

theorem entity_location_invariant:
  "location (new_File d srv p) = trimTrailingSeparator p @ ''/'' @ attr_name (attributes d)
   \<and> root (new_File d srv p) =
       (if length (trimTrailingSeparator p) = 0 then ''/'' else trimTrailingSeparator p)
   \<and> (p \<noteq> ''//'' \<longrightarrow>
        location (new_File d srv p) =
          (if root (new_File d srv p) = ''/'' then [] else root (new_File d srv p))
            @ ''/'' @ name (new_File d srv p))
   \<and> (returned f \<longrightarrow> location_invariant f)"
proof -
  let ?t = "trimTrailingSeparator p"
  let ?f = "new_File d srv p"
  have loc: "location ?f = ?t @ ''/'' @ attr_name (attributes d)"
    by (rule new_File_location)
  have rt: "root ?f = (if length ?t = 0 then ''/'' else ?t)"
    by (simp add: new_File_root)
  have formula: "location ?f = (if root ?f = ''/'' then [] else root ?f) @ ''/'' @ name ?f"
    if "p \<noteq> ''//''"
  proof (cases "?t = []")
    case True
    then show ?thesis by (simp add: loc rt new_File_name)
  next
    case False
    moreover from that have "?t \<noteq> ''/''" by (simp add: trim_eq_slash)
    ultimately show ?thesis by (simp add: loc rt new_File_name)
  qed
  from loc rt formula returned_invariant [of f] show ?thesis by blast
qed

theorem entity_location_invariant_witness:
  "location (new_File (entry ''a.txt'' ''-rw-r--'' 2) fixture_server ''/games/'') = ''/games/a.txt''
   \<and> root (new_File (entry ''a.txt'' ''-rw-r--'' 2) fixture_server ''/games/'') = ''/games''
   \<and> ''/games/'' \<noteq> ''//''
   \<and> returned (fixture_file ''/games'')
   \<and> location_invariant (fixture_file ''/games'')"
proof -
  have "fst (sync (scripted [ok_listing [entry ''a.txt'' ''-rw-r--'' 2]]) (fixture_file ''/games'') [])
          = Inr (fixture_file ''/games'')"
    by (simp add: sync_fixture)
  then have r: "returned (fixture_file ''/games'')"
    by (rule by_sync)
  show ?thesis
    using r entity_location_invariant [of "entry ''a.txt'' ''-rw-r--'' 2" fixture_server "''/games/''"
        "fixture_file ''/games''"]
    by (simp add: trimTrailingSeparator_def entry_def)
qed

text \<open>With the parent \<^verbatim>\<open>//\<close> the trimmed parent is \<^verbatim>\<open>/\<close>: the root is \<^verbatim>\<open>/\<close>, the location
  \<^verbatim>\<open>//a.txt\<close>, and the formula of the unamended claim gives \<^verbatim>\<open>/a.txt\<close>.\<close>

theorem location_formula_counterexample:
  "location (fixture_file ''//'') \<noteq>
     (if root (fixture_file ''//'') = ''/'' then [] else root (fixture_file ''//''))
       @ ''/'' @ name (fixture_file ''//'')"
  by (simp add: fixture_file_def new_File_location new_File_root new_File_name
      trimTrailingSeparator_def)

text \<open>The parent \<^verbatim>\<open>//\<close> is one \<^verbatim>\<open>write\<close> itself passes to the constructor: the path
  \<^verbatim>\<open>///x\<close> given to a top-level file resolves to \<^verbatim>\<open>///x\<close>, whose parent part is \<^verbatim>\<open>//\<close>.\<close>

lemma write_passes_double_parent:
  "fst (File_write (scripted [no_content, ok_listing [entry ''x'' ''-rw-r--'' 1]]) (fixture_file [])
          ''hi'' (Some ''///x'') [])
     = Inr (Some (new_File (entry ''x'' ''-rw-r--'' 1) fixture_server ''//''))"
proof -
  let ?net = "scripted [no_content, ok_listing [entry ''x'' ''-rw-r--'' 1]]"
  have path: "write_path (fixture_file []) (Some ''///x'') = ''///x''"
    by (simp add: write_path_def fixture_file_def new_File_root trimTrailingSeparator_def
        endsWith_def slice_0_m1_def startsWith_def slice_1_def)
  have dir: "\<not> isDirectory (fixture_file [])"
    by (simp add: fixture_file_def new_File_def Let_def entry_def charAt_def)
  have w: "APIRequest ?net (write_request fixture_server ''///x'' ''hi'') [204] [] =
      (Inr (Some \<lparr> status = 204, statusText = ''No Content'', data = Empty \<rparr>),
       [write_request fixture_server ''///x'' ''hi''])"
    by (rule APIRequest_success [where sent = "[]", simplified])
      (simp_all add: scripted_def no_content_def)
  have l: "APIRequest ?net (list_request fixture_server ''//'') []
        [write_request fixture_server ''///x'' ''hi''] =
      (Inr (Some \<lparr> status = 200, statusText = ''OK'',
                    data = FileList [entry ''x'' ''-rw-r--'' 1] \<rparr>),
       [write_request fixture_server ''///x'' ''hi'', list_request fixture_server ''//''])"
    by (rule APIRequest_success [where sent = "[w]" for w, simplified])
      (simp_all add: scripted_def ok_listing_def)
  have parts: "pop [[], [], [], ''x''] = (Some ''x'', [[], [], []])"
    by (simp add: pop_def)
  have nm: "attr_name (attributes (entry ''x'' ''-rw-r--'' 1)) = ''x''"
    by (simp add: entry_def)
  show ?thesis
    by (simp add: File_write_def dir verified_fixture fixture_file_server path
        write_and_relist_def Let_def await_def w parts l data_data_def return_def nm)
qed

text \<open>
  Claim C6. For every mode string of seven characters, \<open>isDirectory\<close> holds exactly when
  character 0 is \<^verbatim>\<open>d\<close>; characters 1 to 3 decide read, write and execute of the owner and
  characters 4 to 6 those of the user, each true exactly when the character is \<^verbatim>\<open>r\<close>,
  \<^verbatim>\<open>w\<close>, \<^verbatim>\<open>x\<close> respectively.
\<close>

theorem mode_decoding:
  assumes "length (attr_mode (attributes d)) = 7"
  shows "isDirectory (new_File d srv p) = (attr_mode (attributes d) ! 0 = CHR ''d'')
    \<and> read (ownerFileAccess (new_File d srv p)) = (attr_mode (attributes d) ! 1 = CHR ''r'')
    \<and> write_access (ownerFileAccess (new_File d srv p)) = (attr_mode (attributes d) ! 2 = CHR ''w'')
    \<and> execute (ownerFileAccess (new_File d srv p)) = (attr_mode (attributes d) ! 3 = CHR ''x'')
    \<and> read (userFileAccess (new_File d srv p)) = (attr_mode (attributes d) ! 4 = CHR ''r'')
    \<and> write_access (userFileAccess (new_File d srv p)) = (attr_mode (attributes d) ! 5 = CHR ''w'')
    \<and> execute (userFileAccess (new_File d srv p)) = (attr_mode (attributes d) ! 6 = CHR ''x'')"
  using assms
  by (auto simp add: new_File_def Let_def charAt_def substr_def numeral_2_eq_2 numeral_3_eq_3)

text \<open>The fixture \<^verbatim>\<open>drwxr-x\<close>: a directory, owner \<^verbatim>\<open>rwx\<close>, user \<^verbatim>\<open>r-x\<close>.\<close>

theorem mode_decoding_witness:
  "length (attr_mode (attributes (entry ''srv'' ''drwxr-x'' 0))) = 7
   \<and> isDirectory (new_File (entry ''srv'' ''drwxr-x'' 0) fixture_server [])
   \<and> ownerFileAccess (new_File (entry ''srv'' ''drwxr-x'' 0) fixture_server [])
       = \<lparr> read = True, write_access = True, execute = True \<rparr>
   \<and> userFileAccess (new_File (entry ''srv'' ''drwxr-x'' 0) fixture_server [])
       = \<lparr> read = True, write_access = False, execute = True \<rparr>"
proof -
  have len: "length (attr_mode (attributes (entry ''srv'' ''drwxr-x'' 0))) = 7"
    by (simp add: entry_def)
  show ?thesis
    using len mode_decoding [OF len, of fixture_server "[]"]
    by (simp add: entry_def)
qed

section \<open>Operations of \<^verbatim>\<open>File\<close> against the upstream\<close>

text \<open>
  Claim C3, on the source. \<^verbatim>\<open>write\<close> on the top-level file \<^verbatim>\<open>a.txt\<close>, with the write
  answered 204 and the listing of the parent answered 200 with no entries: the call issues
  both requests and resolves with \<^verbatim>\<open>undefined\<close>; it does not fail.
\<close>

theorem write_missing_entry_returns_absent:
  "File_write (scripted [no_content, ok_listing []]) (fixture_file []) ''hi'' None [] =
     (Inr None, [write_request fixture_server ''/a.txt'' ''hi'', list_request fixture_server []])"
proof -
  let ?net = "scripted [no_content, ok_listing []]"
  have path: "write_path (fixture_file []) None = ''/a.txt''"
    by (simp add: write_path_def fixture_file_def new_File_root new_File_name
        trimTrailingSeparator_def endsWith_def slice_0_m1_def entry_def)
  have dir: "\<not> isDirectory (fixture_file [])"
    by (simp add: fixture_file_def new_File_def Let_def entry_def charAt_def)
  have w: "APIRequest ?net (write_request fixture_server ''/a.txt'' ''hi'') [204] [] =
      (Inr (Some \<lparr> status = 204, statusText = ''No Content'', data = Empty \<rparr>),
       [write_request fixture_server ''/a.txt'' ''hi''])"
    by (rule APIRequest_success [where sent = "[]", simplified])
      (simp_all add: scripted_def no_content_def)
  have l: "APIRequest ?net (list_request fixture_server [])  []
        [write_request fixture_server ''/a.txt'' ''hi''] =
      (Inr (Some \<lparr> status = 200, statusText = ''OK'', data = FileList [] \<rparr>),
       [write_request fixture_server ''/a.txt'' ''hi'', list_request fixture_server []])"
    by (rule APIRequest_success [where sent = "[w]" for w, simplified])
      (simp_all add: scripted_def ok_listing_def)
  have split: "pop [[], ''a.txt''] = (Some ''a.txt'', [[]])"
    by (simp add: pop_def)
  show ?thesis
    by (simp add: File_write_def dir verified_fixture fixture_file_server path
        write_and_relist_def await_def w split l data_data_def return_def)
qed

text \<open>\<^verbatim>\<open>rename\<close> does fail when the listing has no entry under the new name.\<close>

lemma rename_missing_entry_fails:
  assumes "verified (client (server this))"
    and "fst (APIRequest net (rename_request this n) [204] sent) = Inr response0"
    and "fst (APIRequest net (list_request (server this) (root this)) []
                (sent @ [rename_request this n])) = Inr (Some response1)"
    and "data response1 = FileList files"
    and "n \<notin> set (map (\<lambda>file. attr_name (attributes file)) files)"
  shows "fst (rename net this n sent) = Inl (PterodactylAPIError ''Unable to complete the operation'')"
proof -
  have "find (\<lambda>file. attr_name (attributes file) = n) files = None"
    using assms(5) by (auto simp add: find_None_iff)
  moreover have "data_data (Some response1) s = (Inr files, s)" for s
    using assms(4) by (simp add: data_data_def return_def)
  ultimately show ?thesis
    using assms(1-3)
    by (simp add: rename_def await_APIRequest await_data_data throw_def)
qed

text \<open>
  Claim C4, as amended. With an absolute root free of double separators, \<^verbatim>\<open>write\<close> composes
  an absolute path free of double separators, both from a supplied path free of them (its
  leading separator stripped) and from the node's own name; \<^verbatim>\<open>writeChild\<close> does so from the
  node's location. Both \<^verbatim>\<open>addDirectory\<close> methods do so when the base they join onto
  (location of a directory, root of a file) does not end with a separator, respectively when
  the location given to the manager is longer than one character. \<^verbatim>\<open>FileManager.writeFile\<close>
  only strips the leading separator: its path has no double separator and no leading one.
\<close>

theorem composed_paths:
  "(valid_path (root this) \<and> \<not> double_separator p \<longrightarrow> valid_path (write_path this (Some p)))
   \<and> (valid_path (root this) \<and> valid_name (name this) \<longrightarrow> valid_path (write_path this None))
   \<and> (valid_path (location this) \<and> \<not> double_separator p \<longrightarrow>
        valid_path (writeChild_path this p))
   \<and> (valid_path (if isDirectory this then location this else root this)
        \<and> \<not> endsWith (if isDirectory this then location this else root this) ''/''
        \<and> valid_path loc \<and> valid_name n \<longrightarrow>
        valid_path (create_folder_path (addDirectory_location this loc) n))
   \<and> (valid_path loc \<and> length loc > 1 \<and> valid_name n \<longrightarrow>
        valid_path (create_folder_path (manager_addDirectory_location loc) n))
   \<and> (\<not> double_separator p \<longrightarrow> valid_name (writeFile_path p))"
proof (intro conjI impI)
  assume "valid_path (root this) \<and> \<not> double_separator p"
  then show "valid_path (write_path this (Some p))"
    using write_path_valid [of this] strip_leading_valid [of p]
    by (simp add: write_path_def trim_in_place)
next
  assume "valid_path (root this) \<and> valid_name (name this)"
  then show "valid_path (write_path this None)"
    using write_path_valid [of this] by (simp add: write_path_def trim_in_place)
next
  assume a: "valid_path (location this) \<and> \<not> double_separator p"
  then have "valid_path (trimTrailingSeparator (location this) @ ''/''
      @ (if startsWith p ''/'' then slice_1 p else p))"
    using trimmed_base [of "location this"] strip_leading_valid [of p]
    by (intro join_valid) auto
  then show "valid_path (writeChild_path this p)"
    by (simp add: writeChild_path_def trim_in_place)
next
  assume "valid_path (if isDirectory this then location this else root this)
        \<and> \<not> endsWith (if isDirectory this then location this else root this) ''/''
        \<and> valid_path loc \<and> valid_name n"
  then show "valid_path (create_folder_path (addDirectory_location this loc) n)"
    using addDirectory_path_valid [of "location this" loc n]
      addDirectory_path_valid [of "root this" loc n]
    by (simp add: create_folder_path_def addDirectory_location_def trim_in_place split: if_splits)
next
  assume a: "valid_path loc \<and> length loc > 1 \<and> valid_name n"
  then have "valid_path (trimTrailingSeparator loc @ ''/'' @ n)"
    using trimmed_base [of loc] by (intro join_valid) auto
  with a show "valid_path (create_folder_path (manager_addDirectory_location loc) n)"
    by (simp add: create_folder_path_def manager_addDirectory_location_def trim_in_place)
next
  assume "\<not> double_separator p"
  then show "valid_name (writeFile_path p)"
    using strip_leading_valid [of p] by (simp add: writeFile_path_def)
qed

theorem composed_paths_witness:
  "write_path (fixture_file ''/games'') (Some ''/b.txt'') = ''/games/b.txt''
   \<and> write_path (fixture_file ''/games'') None = ''/games/a.txt''
   \<and> writeChild_path (fixture_directory ''/games'') ''/region/r.0.0.mca'' = ''/games/world/region/r.0.0.mca''
   \<and> create_folder_path (addDirectory_location (fixture_directory ''/games'') ''/'') ''data''
        = ''/games/world/data''
   \<and> create_folder_path (manager_addDirectory_location ''/games/'') ''plugins'' = ''/games/plugins''
   \<and> writeFile_path ''/games/b.txt'' = ''games/b.txt''
   \<and> valid_path (write_path (fixture_file ''/games'') (Some ''/b.txt''))
   \<and> valid_path (write_path (fixture_file ''/games'') None)
   \<and> valid_path (writeChild_path (fixture_directory ''/games'') ''/region/r.0.0.mca'')
   \<and> valid_path (create_folder_path (addDirectory_location (fixture_directory ''/games'') ''/'') ''data'')
   \<and> valid_path (create_folder_path (manager_addDirectory_location ''/games/'') ''plugins'')
   \<and> valid_name (writeFile_path ''/games/b.txt'')"
proof -
  have eqs: "write_path (fixture_file ''/games'') (Some ''/b.txt'') = ''/games/b.txt''"
    "write_path (fixture_file ''/games'') None = ''/games/a.txt''"
    "writeChild_path (fixture_directory ''/games'') ''/region/r.0.0.mca'' = ''/games/world/region/r.0.0.mca''"
    "create_folder_path (addDirectory_location (fixture_directory ''/games'') ''/'') ''data''
        = ''/games/world/data''"
    "create_folder_path (manager_addDirectory_location ''/games/'') ''plugins'' = ''/games/plugins''"
    "writeFile_path ''/games/b.txt'' = ''games/b.txt''"
    by (simp_all add: write_path_def writeChild_path_def create_folder_path_def
        addDirectory_location_def manager_addDirectory_location_def writeFile_path_def
        fixture_file_fields fixture_directory_fields endsWith_def startsWith_def slice_0_m1_def
        slice_1_def)
  have hyps: "valid_path (root (fixture_file ''/games''))" "\<not> double_separator ''/b.txt''"
    "valid_name (name (fixture_file ''/games''))"
    "valid_path (location (fixture_directory ''/games''))"
    "\<not> double_separator ''/region/r.0.0.mca''"
    "\<not> endsWith (location (fixture_directory ''/games'')) ''/''"
    "valid_path ''/''" "valid_name ''data''"
    "valid_path ''/games/''" "length ''/games/'' > 1" "valid_name ''plugins''"
    "\<not> double_separator ''/games/b.txt''"
    by (simp_all add: fixture_file_fields fixture_directory_fields valid_path_def valid_name_def
        endsWith_def)
  have c1: "valid_path (write_path (fixture_file ''/games'') (Some ''/b.txt''))"
    and c2: "valid_path (write_path (fixture_file ''/games'') None)"
    and c6: "valid_name (writeFile_path ''/games/b.txt'')"
    using composed_paths [of "fixture_file ''/games''" "''/b.txt''"] hyps
      composed_paths [of _ "''/games/b.txt''"]
    by simp_all
  have c3: "valid_path (writeChild_path (fixture_directory ''/games'') ''/region/r.0.0.mca'')"
    and c4: "valid_path (create_folder_path (addDirectory_location (fixture_directory ''/games'') ''/'') ''data'')"
    using composed_paths [of "fixture_directory ''/games''" "''/region/r.0.0.mca''" "''/''" "''data''"] hyps
    by (simp_all add: fixture_directory_fields)
  have c5: "valid_path (create_folder_path (manager_addDirectory_location ''/games/'') ''plugins'')"
    using composed_paths [of _ _ "''/games/''" "''plugins''"] hyps by simp
  show ?thesis using eqs c1 c2 c3 c4 c5 c6 by simp
qed

text \<open>\<^verbatim>\<open>FileManager.addDirectory\<close> with its default location \<^verbatim>\<open>/\<close> keeps the separator and
  requests \<^verbatim>\<open>//plugins\<close>; \<^verbatim>\<open>FileManager.writeFile\<close> sends a path that does not begin with a
  separator.\<close>

theorem composed_paths_counterexample:
  "create_folder_path (manager_addDirectory_location ''/'') ''plugins'' = ''//plugins''
   \<and> double_separator (create_folder_path (manager_addDirectory_location ''/'') ''plugins'')
   \<and> snd (manager_addDirectory (scripted []) fixture_manager ''plugins'' ''/'' [])
        = [create_folder_request fixture_server ''/'' ''plugins'']
   \<and> url (create_folder_request fixture_server ''/'' ''plugins'')
        = ''https://panel.example/api/client/servers/1a2b3c4d/files/create-folder?file=//plugins''
   \<and> writeFile_path ''/games/b.txt'' = ''games/b.txt''
   \<and> \<not> startsWith (writeFile_path ''/games/b.txt'') ''/''"
proof -
  have srv: "manager_server fixture_manager = fixture_server"
    by (simp add: fixture_manager_def new_FileManager_def)
  have loc: "manager_addDirectory_location ''/'' = ''/''"
    by (simp add: manager_addDirectory_location_def)
  have "snd (manager_addDirectory (scripted []) fixture_manager ''plugins'' ''/'' [])
        = [create_folder_request fixture_server ''/'' ''plugins'']"
    by (simp add: manager_addDirectory_def srv verified_fixture loc create_and_relist_def
        await_APIRequest APIRequest_def makeRequest_def scripted_def Let_def)
  then show ?thesis
    by (simp add: loc create_folder_path_def create_folder_request_def request_def files_url_def
        fixture_server_def fixture_client_def writeFile_path_def startsWith_def slice_1_def)
qed

text \<open>\<^verbatim>\<open>File.addDirectory\<close> called on a top-level file joins the root \<^verbatim>\<open>/\<close> as it is.\<close>

lemma addDirectory_on_top_level_file:
  "create_folder_path (addDirectory_location (fixture_file []) ''/'') ''data'' = ''//data''"
  by (simp add: create_folder_path_def addDirectory_location_def fixture_file_def new_File_def
      Let_def entry_def endsWith_def slice_0_m1_def charAt_def)

text \<open>
  Claim C7. \<^verbatim>\<open>decompress\<close> is the same function for both values of the flag. With a verified
  client and a decompress request that succeeds, it issues the decompress request
  \<^verbatim>\<open>{root, file}\<close>, then the delete request \<^verbatim>\<open>{root, files: [name]}\<close> for the node's own root
  and name, and returns \<^verbatim>\<open>true\<close>.
\<close>

theorem decompress_ignores_flag:
  "decompress net this True = decompress net this False
   \<and> (verified (client (server this)) \<and>
        fst (APIRequest net (decompress_request this) [204] sent) = Inr response' \<longrightarrow>
          decompress net this deleteSelf sent =
            (Inr True, sent @ [decompress_request this, delete_request this]))
   \<and> url (decompress_request this) = files_url (server this) ''decompress''
   \<and> body (decompress_request this) =
        Some (JObject [(''root'', JString (root this)), (''file'', JString (name this))])
   \<and> url (delete_request this) = files_url (server this) ''delete''
   \<and> body (delete_request this) =
        Some (JObject [(''root'', JString (root this)), (''files'', JArray [JString (name this)])])"
  by (simp add: decompress_def await_APIRequest delete_sent return_def
      decompress_request_def delete_request_def request_def)

theorem decompress_ignores_flag_witness:
  "verified (client (server (fixture_file [])))
   \<and> fst (APIRequest (scripted [no_content, no_content]) (decompress_request (fixture_file []))
            [204] [])
       = Inr (Some \<lparr> status = 204, statusText = ''No Content'', data = Empty \<rparr>)
   \<and> decompress (scripted [no_content, no_content]) (fixture_file []) False [] =
       (Inr True, [decompress_request (fixture_file []), delete_request (fixture_file [])])"
proof -
  have v: "verified (client (server (fixture_file [])))"
    by (simp add: fixture_file_server verified_fixture)
  have r: "fst (APIRequest (scripted [no_content, no_content]) (decompress_request (fixture_file []))
            [204] [])
       = Inr (Some \<lparr> status = 204, statusText = ''No Content'', data = Empty \<rparr>)"
    by (simp add: APIRequest_success [where sent = "[]" and r = "\<lparr> status = 204, statusText = ''No Content'', data = Empty \<rparr>"]
        scripted_def no_content_def)
  show ?thesis
    using v r
      decompress_ignores_flag [of "scripted [no_content, no_content]" "fixture_file []" "[]"
        "Some \<lparr> status = 204, statusText = ''No Content'', data = Empty \<rparr>" False]
    by simp
qed

text \<open>
  Claim C8. A \<^verbatim>\<open>File\<close> constructed from a listing entry, whose client is verified and whose
  parent directory lists (status 200) that same entry among entries of distinct names, is
  re-synchronised by \<^verbatim>\<open>sync\<close> to a \<^verbatim>\<open>File\<close> with the same name, size, directory flag and
  owner and user permissions.
\<close>

theorem sync_round_trip:
  assumes "this = new_File d srv p"
    and "verified (client srv)"
    and "net sent (list_request srv (root this)) = Resolved r"
    and "status r = 200"
    and "data r = FileList files"
    and "d \<in> set files"
    and "distinct (map (\<lambda>file. attr_name (attributes file)) files)"
  shows "\<exists>this'. fst (sync net this sent) = Inr this'
           \<and> name this' = name this
           \<and> size_bytes this' = size_bytes this
           \<and> isDirectory this' = isDirectory this
           \<and> ownerFileAccess this' = ownerFileAccess this
           \<and> userFileAccess this' = userFileAccess this"
proof -
  have srv: "server this = srv" and nm: "name this = attr_name (attributes d)"
    by (simp_all add: assms(1) new_File_def Let_def)
  have req: "APIRequest net (list_request srv (root this)) [] sent =
      (Inr (Some r), sent @ [list_request srv (root this)])"
    using assms(3,4) by (simp add: APIRequest_success)
  have found: "find (\<lambda>file. attr_name (attributes file) = attr_name (attributes d)) files = Some d"
    using find_distinct_name [OF assms(7,6)] .
  have run: "fst (sync net this sent) = Inr (new_File d srv (root this))"
    using assms(2,5)
    by (simp add: sync_def srv nm await_def req data_data_def return_def found)
  have same: "name (new_File d srv q) = name this
      \<and> size_bytes (new_File d srv q) = size_bytes this
      \<and> isDirectory (new_File d srv q) = isDirectory this
      \<and> ownerFileAccess (new_File d srv q) = ownerFileAccess this
      \<and> userFileAccess (new_File d srv q) = userFileAccess this" for q
    by (simp add: assms(1) new_File_def Let_def)
  from run same show ?thesis by blast
qed

theorem sync_round_trip_witness:
  "verified (client fixture_server)
   \<and> entry ''a.txt'' ''-rw-r--'' 2 \<in> set [entry ''world'' ''drwxr-x'' 0, entry ''a.txt'' ''-rw-r--'' 2]
   \<and> distinct (map (\<lambda>file. attr_name (attributes file))
                 [entry ''world'' ''drwxr-x'' 0, entry ''a.txt'' ''-rw-r--'' 2])
   \<and> (\<exists>this'. fst (sync (scripted [ok_listing [entry ''world'' ''drwxr-x'' 0,
                                                  entry ''a.txt'' ''-rw-r--'' 2]])
                       (fixture_file ''/games/'') []) = Inr this'
          \<and> name this' = ''a.txt'' \<and> size_bytes this' = 2 \<and> \<not> isDirectory this'
          \<and> ownerFileAccess this' = \<lparr> read = True, write_access = True, execute = False \<rparr>
          \<and> userFileAccess this' = \<lparr> read = True, write_access = False, execute = False \<rparr>)"
proof -
  let ?files = "[entry ''world'' ''drwxr-x'' 0, entry ''a.txt'' ''-rw-r--'' 2]"
  have root: "root (fixture_file ''/games/'') = ''/games''"
    by (simp add: fixture_file_def new_File_root trimTrailingSeparator_def)
  have h: "verified (client fixture_server)"
    "scripted [ok_listing ?files] [] (list_request fixture_server (root (fixture_file ''/games/'')))
       = Resolved \<lparr> status = 200, statusText = ''OK'', data = FileList ?files \<rparr>"
    "entry ''a.txt'' ''-rw-r--'' 2 \<in> set ?files"
    "distinct (map (\<lambda>file. attr_name (attributes file)) ?files)"
    by (simp_all add: verified_fixture scripted_def ok_listing_def entry_def)
  have fields: "name (fixture_file ''/games/'') = ''a.txt''"
    "size_bytes (fixture_file ''/games/'') = 2"
    "\<not> isDirectory (fixture_file ''/games/'')"
    "ownerFileAccess (fixture_file ''/games/'') = \<lparr> read = True, write_access = True, execute = False \<rparr>"
    "userFileAccess (fixture_file ''/games/'') = \<lparr> read = True, write_access = False, execute = False \<rparr>"
    by (simp_all add: fixture_file_def new_File_def Let_def entry_def charAt_def substr_def)
  show ?thesis
    using h sync_round_trip [of "fixture_file ''/games/''" "entry ''a.txt'' ''-rw-r--'' 2"
        fixture_server "''/games/''" "scripted [ok_listing ?files]" "[]"
        "\<lparr> status = 200, statusText = ''OK'', data = FileList ?files \<rparr>" ?files]
    by (simp add: fixture_file_def [symmetric] fields)
qed

text \<open>
  Claim C9, as amended. \<^verbatim>\<open>rename\<close> sends \<^verbatim>\<open>{root, files: [{from, to}]}\<close>; \<^verbatim>\<open>delete\<close> and
  \<^verbatim>\<open>compress\<close> send \<^verbatim>\<open>{root, files: [name]}\<close>; both \<^verbatim>\<open>addDirectory\<close> methods send
  \<^verbatim>\<open>{root, name}\<close>; \<^verbatim>\<open>decompress\<close> sends \<^verbatim>\<open>{root, file}\<close>; \<^verbatim>\<open>duplicate\<close> sends
  \<^verbatim>\<open>{location}\<close>, the target directory trimmed of one trailing separator joined with the
  copy's name. With a verified client, each is the first request its operation issues.
\<close>

theorem request_bodies:
  "body (rename_request this n) =
     Some (JObject [(''root'', JString (root this)),
                    (''files'', JArray [JObject [(''from'', JString (name this)),
                                                 (''to'', JString n)]])])
   \<and> body (delete_request this) =
     Some (JObject [(''root'', JString (root this)), (''files'', JArray [JString (name this)])])
   \<and> body (compress_request this) =
     Some (JObject [(''root'', JString (root this)), (''files'', JArray [JString (name this)])])
   \<and> body (create_folder_request srv loc n) =
     Some (JObject [(''root'', JString loc), (''name'', JString n)])
   \<and> body (decompress_request this) =
     Some (JObject [(''root'', JString (root this)), (''file'', JString (name this))])
   \<and> body (duplicate_request this to new) =
     Some (JObject [(''location'',
             JString (trimTrailingSeparator to @ ''/'' @ (if new = [] then name this else new)))])
   \<and> (verified (client (server this)) \<longrightarrow>
        prefix (sent @ [rename_request this n]) (snd (rename net this n sent))
      \<and> prefix (sent @ [duplicate_request this to new]) (snd (duplicate net this to new sent))
      \<and> prefix (sent @ [delete_request this]) (snd (delete net this sent))
      \<and> prefix (sent @ [compress_request this]) (snd (compress net this sent))
      \<and> prefix (sent @ [decompress_request this]) (snd (decompress net this b sent))
      \<and> prefix (sent @ [create_folder_request (server this) (addDirectory_location this loc) n])
           (snd (addDirectory net this n loc sent)))
   \<and> (verified (client (manager_server m)) \<longrightarrow>
        prefix (sent @ [create_folder_request (manager_server m) (manager_addDirectory_location loc) n])
          (snd (manager_addDirectory net m n loc sent)))"
proof -
  have bodies: "body (rename_request this n) =
     Some (JObject [(''root'', JString (root this)),
                    (''files'', JArray [JObject [(''from'', JString (name this)),
                                                 (''to'', JString n)]])])"
    "body (delete_request this) =
     Some (JObject [(''root'', JString (root this)), (''files'', JArray [JString (name this)])])"
    "body (compress_request this) =
     Some (JObject [(''root'', JString (root this)), (''files'', JArray [JString (name this)])])"
    "body (create_folder_request srv loc n) =
     Some (JObject [(''root'', JString loc), (''name'', JString n)])"
    "body (decompress_request this) =
     Some (JObject [(''root'', JString (root this)), (''file'', JString (name this))])"
    by (simp_all add: rename_request_def delete_request_def compress_request_def
        create_folder_request_def decompress_request_def request_def)
  have copy: "body (duplicate_request this to new) =
     Some (JObject [(''location'',
             JString (trimTrailingSeparator to @ ''/'' @ (if new = [] then name this else new)))])"
    by (simp add: duplicate_request_def request_def Let_def trim_in_place)
  show ?thesis
    using bodies copy
    by (simp add: rename_first duplicate_first delete_first compress_first decompress_first
        addDirectory_first manager_addDirectory_first)
qed

theorem request_bodies_witness:
  "verified (client (server (fixture_file ''/games'')))
   \<and> verified (client (manager_server fixture_manager))
   \<and> body (rename_request (fixture_file ''/games'') ''b.txt'') =
       Some (JObject [(''root'', JString ''/games''),
                      (''files'', JArray [JObject [(''from'', JString ''a.txt''),
                                                   (''to'', JString ''b.txt'')]])])
   \<and> prefix [rename_request (fixture_file ''/games'') ''b.txt'']
        (snd (rename (scripted []) (fixture_file ''/games'') ''b.txt'' []))
   \<and> prefix [create_folder_request fixture_server ''/games'' ''plugins'']
        (snd (manager_addDirectory (scripted []) fixture_manager ''plugins'' ''/games/'' []))"
proof -
  have v: "verified (client (server (fixture_file ''/games'')))"
    "verified (client (manager_server fixture_manager))"
    and srv: "manager_server fixture_manager = fixture_server"
    by (simp_all add: fixture_file_server verified_fixture fixture_manager_def new_FileManager_def)
  have loc: "manager_addDirectory_location ''/games/'' = ''/games''"
    by (simp add: manager_addDirectory_location_def endsWith_def slice_0_m1_def)
  show ?thesis
    using v
      request_bodies [where this = "fixture_file ''/games''" and n = "''b.txt''" and sent = "[]"
        and net = "scripted []"]
      request_bodies [where m = fixture_manager and n = "''plugins''" and loc = "''/games/''"
        and sent = "[]" and net = "scripted []"]
    by (simp add: fixture_file_fields srv loc)
qed

text \<open>The copy request of \<^verbatim>\<open>a.txt\<close> into \<^verbatim>\<open>/backup\<close> carries \<^verbatim>\<open>{location: "/backup/a.txt"}\<close>,
  not \<^verbatim>\<open>{root, files: [name]}\<close>.\<close>

theorem copy_body_counterexample:
  "body (duplicate_request (fixture_file []) ''/backup'' []) =
     Some (JObject [(''location'', JString ''/backup/a.txt'')])
   \<and> body (duplicate_request (fixture_file []) ''/backup'' []) \<noteq>
     Some (JObject [(''root'', JString (root (fixture_file []))),
                    (''files'', JArray [JString (name (fixture_file []))])])"
  by (simp add: duplicate_request_def request_def Let_def endsWith_def fixture_file_name)

section \<open>The file manager\<close>

text \<open>
  Claim C10. Whatever path \<open>p\<close> is listed, every entity \<^verbatim>\<open>getFolderContents\<close> returns was
  constructed with the empty parent: its \<open>root\<close> is \<^verbatim>\<open>/\<close> and its \<open>location\<close> is \<^verbatim>\<open>/\<close>
  followed by its name.
\<close>

theorem getFolderContents_parent:
  assumes "fst (getFolderContents net manager p sent) = Inr fs" and "f \<in> set fs"
  shows "(\<exists>d. f = new_File d (manager_server manager) [])
    \<and> root f = ''/'' \<and> location f = ''/'' @ name f"
proof -
  from assms obtain d where f: "f = new_File d (manager_server manager) []"
    by (auto simp add: getFolderContents_def throw_Inr return_def elim!: await_Inr split: if_splits)
  have "root f = ''/''" and "location f = ''/'' @ name f"
    by (simp_all add: f new_File_root new_File_location new_File_name trimTrailingSeparator_def)
  with f show ?thesis by blast
qed

theorem getFolderContents_parent_witness:
  "fst (getFolderContents (scripted [ok_listing [entry ''map.dat'' ''-rw-r--'' 9]]) fixture_manager
          ''/games/world'' [])
     = Inr [new_File (entry ''map.dat'' ''-rw-r--'' 9) fixture_server []]
   \<and> root (new_File (entry ''map.dat'' ''-rw-r--'' 9) fixture_server []) = ''/''
   \<and> location (new_File (entry ''map.dat'' ''-rw-r--'' 9) fixture_server []) = ''/map.dat''"
proof -
  let ?net = "scripted [ok_listing [entry ''map.dat'' ''-rw-r--'' 9]]"
  have srv: "manager_server fixture_manager = fixture_server"
    by (simp add: fixture_manager_def new_FileManager_def)
  have req: "APIRequest ?net (list_request fixture_server ''/games/world'') [] [] =
      (Inr (Some \<lparr> status = 200, statusText = ''OK'',
                    data = FileList [entry ''map.dat'' ''-rw-r--'' 9] \<rparr>),
       [list_request fixture_server ''/games/world''])"
    by (rule APIRequest_success [where sent = "[]", simplified])
      (simp_all add: scripted_def ok_listing_def)
  have run: "fst (getFolderContents ?net fixture_manager ''/games/world'' [])
      = Inr [new_File (entry ''map.dat'' ''-rw-r--'' 9) fixture_server []]"
    by (simp add: getFolderContents_def srv verified_fixture await_def req data_data_def
        return_def)
  show ?thesis
    using run
      getFolderContents_parent [OF run,
        of "new_File (entry ''map.dat'' ''-rw-r--'' 9) fixture_server []"]
    by (simp add: new_File_name entry_def)
qed

end
